theory Spec2Isabelle
  imports Main "HOL-Library.Multiset" "HOL-Library.List_Lexorder" "HOL-Library.Product_Lexorder"
begin

section \<open>The gateway: webdav-server/server.js\<close>

text \<open>
  The gateway is an Express application: a chain of middleware in registration order.
  A request is the part of Node's \<open>IncomingMessage\<close> that the chain reads: the verb,
  the request target and three headers. A header that was not sent is \<open>undefined\<close> in
  JavaScript and \<open>None\<close> here.
\<close>

record request =
  req_method :: string
  url :: string
  hdr_origin :: "string option"
  hdr_host :: "string option"
  hdr_authorization :: "string option"

text \<open>
  The environment: \<open>NODE_ENV === 'production'\<close>, what \<open>express.static\<close> finds under
  \<open>public/\<close> for a path (the status it answers with, \<open>None\<close> when it calls \<open>next\<close>),
  whether \<open>public/index.html\<close> can be sent, and the path that Express reads off a
  request target (\<open>getPathname\<close>, that is \<open>parseurl(req).pathname\<close>, which falls back
  on Node's \<open>url.parse\<close>). The path is a parameter: what is proved of the gateway
  holds whatever path \<open>parseurl\<close> makes of a target. The targets are those that have
  a path: in origin form, in absolute form, or the \<open>*\<close> of \<open>OPTIONS\<close>.
\<close>

record env =
  production :: bool
  public_file :: "string \<Rightarrow> nat option"
  index_html :: bool
  getPathname :: "string \<Rightarrow> string"

subsection \<open>String operations of the platform\<close>

text \<open>\<open>String.prototype.split\<close> with a one-character separator: never an empty array.\<close>

fun js_split :: "char \<Rightarrow> string \<Rightarrow> string list" where
  "js_split c [] = [[]]"
| "js_split c (x # xs) =
     (if x = c then [] # js_split c xs
      else (case js_split c xs of [] \<Rightarrow> [[x]] | y # ys \<Rightarrow> (x # y) # ys))"

text \<open>
  \<open>Buffer.from(s, 'base64')\<close>: Node's decoder accepts the standard and the URL-safe
  alphabet, skips every other character and stops at the first \<open>=\<close>. Four sextets give
  three bytes; a final group of three gives two bytes, of two gives one, a single
  left-over sextet gives none.
\<close>

definition unbase64 :: "char \<Rightarrow> nat option" where
  "unbase64 c =
     (let n = (of_char c :: nat) in
      if 65 \<le> n \<and> n \<le> 90 then Some (n - 65)
      else if 97 \<le> n \<and> n \<le> 122 then Some (n - 71)
      else if 48 \<le> n \<and> n \<le> 57 then Some (n + 4)
      else if n = 43 \<or> n = 45 then Some 62
      else if n = 47 \<or> n = 95 then Some 63
      else None)"

fun base64_groups :: "nat list \<Rightarrow> nat list" where
  "base64_groups (a # b # c # d # rest) =
     (a * 4 + b div 16) # ((b mod 16) * 16 + c div 4) # ((c mod 4) * 64 + d)
       # base64_groups rest"
| "base64_groups [a, b, c] = [a * 4 + b div 16, (b mod 16) * 16 + c div 4]"
| "base64_groups [a, b] = [a * 4 + b div 16]"
| "base64_groups _ = []"

definition buffer_from_base64 :: "string \<Rightarrow> nat list" where
  "buffer_from_base64 s =
     base64_groups (List.map_filter unbase64 (takeWhile (\<lambda>c. c \<noteq> CHR ''='') s))"

text \<open>\<open>buf.toString('ascii')\<close> clears the high bit of every byte.\<close>

definition toString_ascii :: "nat list \<Rightarrow> string" where
  "toString_ascii bs = map (\<lambda>b. char_of (b mod 128)) bs"

subsection \<open>Mounting at \<open>/api\<close>\<close>

text \<open>
  \<open>app.use('/api', fn)\<close> runs \<open>fn\<close> when the path of the request target matches
  the regular expression Express compiles for the mount path,
  \<^verbatim>\<open>/^\/api\/?(?=\/|$)/i\<close>. While \<open>fn\<close> runs, \<open>req.url\<close> is the request target
  with the matched text cut off behind its scheme and host (\<open>getProtohost\<close>, empty
  for a target in origin form) and, in origin form, a leading slash restored;
  \<open>req.originalUrl\<close> keeps the target.
\<close>

definition lower_char :: "char \<Rightarrow> char" where
  "lower_char c =
     (let n = (of_char c :: nat) in if 65 \<le> n \<and> n \<le> 90 then char_of (n + 32) else c)"

definition mount_match :: "string \<Rightarrow> string option" where
  "mount_match p =
     (if map lower_char (take 4 p) = ''/api'' then
        (let r = drop 4 p in
         if r = [] then Some (take 4 p)
         else if r = ''/'' \<or> take 2 r = ''//'' then Some (take 5 p)
         else if take 1 r = ''/'' then Some (take 4 p)
         else None)
      else None)"

text \<open>\<open>s.indexOf(sub)\<close>: the first position at which \<open>sub\<close> starts, if any.\<close>

fun indexOf :: "string \<Rightarrow> string \<Rightarrow> nat option" where
  "indexOf sub [] = (if sub = [] then Some 0 else None)"
| "indexOf sub (x # xs) =
     (if take (length sub) (x # xs) = sub then Some 0 else map_option Suc (indexOf sub xs))"

definition getProtohost :: "string \<Rightarrow> string" where
  "getProtohost u =
     (if u = [] \<or> take 1 u = ''/'' then []
      else
        (case indexOf ''://'' (takeWhile (\<lambda>c. c \<noteq> CHR ''?'') u) of
           None \<Rightarrow> []
         | Some i \<Rightarrow>
             (case indexOf ''/'' (drop (3 + i) u) of
                None \<Rightarrow> []
              | Some j \<Rightarrow> take (3 + i + j) u)))"

definition mounted_url :: "env \<Rightarrow> string \<Rightarrow> string option" where
  "mounted_url e u =
     (case mount_match (getPathname e u) of
        None \<Rightarrow> None
      | Some m \<Rightarrow>
          (let protohost = getProtohost u;
               v = protohost @ drop (length protohost + length m) u
           in Some (if protohost = [] \<and> take 1 v \<noteq> ''/'' then CHR ''/'' # v else v)))"

subsection \<open>The authentication middleware (server.js, lines 58 to 79)\<close>

text \<open>
  \<open>Thrown\<close>: the header has no space, so \<open>authHeader.split(' ')[1]\<close> is \<open>undefined\<close>
  and \<open>Buffer.from(undefined, 'base64')\<close> throws a TypeError. The destructuring
  \<open>[username, password] = credentials.split(':')\<close> reads the first two fields and
  ignores the rest; with one field only, \<open>password\<close> is \<open>undefined\<close>.
\<close>

datatype auth_result = NoHeader | Thrown | Accepted | Rejected

definition base64Credentials :: "string \<Rightarrow> string option" where
  "base64Credentials authHeader =
     (case js_split CHR '' '' authHeader of _ # t # _ \<Rightarrow> Some t | _ \<Rightarrow> None)"

definition decode_credentials :: "string \<Rightarrow> string" where
  "decode_credentials t = toString_ascii (buffer_from_base64 t)"

definition credentials_match :: "string \<Rightarrow> bool" where
  "credentials_match credentials =
     (case js_split CHR '':'' credentials of
        username # password # _ \<Rightarrow>
          username = ''WebDavDemo'' \<and> password = ''WebDavPassword''
      | _ \<Rightarrow> False)"

definition authenticate :: "string option \<Rightarrow> auth_result" where
  "authenticate h =
     (case h of
        None \<Rightarrow> NoHeader
      | Some authHeader \<Rightarrow>
          if authHeader = [] then NoHeader
          else
            (case base64Credentials authHeader of
               None \<Rightarrow> Thrown
             | Some t \<Rightarrow>
                 if credentials_match (decode_credentials t) then Accepted else Rejected))"

subsection \<open>The mount handler (server.js, lines 88 to 99)\<close>

text \<open>\<open>req.url.replace(/^\/api/, '') || '/'\<close>, applied to the \<open>req.url\<close> the handler sees.\<close>

definition rewrite_url :: "string \<Rightarrow> string" where
  "rewrite_url u =
     (let v = (if take 4 u = ''/api'' then drop 4 u else u)
      in if v = [] then ''/'' else v)"

subsection \<open>The chain\<close>

text \<open>
  An outcome records the middleware the request went through, the headers the
  gateway's own \<open>res.setHeader\<close> calls put on the response, and how the request ended:
  a reply of the gateway, or \<open>server.executeRequest\<close> with the rewritten \<open>req.url\<close>.
  \<open>res.sendStatus(200)\<close> sends the status text \<open>OK\<close> as the body; \<open>res.json\<close>
  sends the object; an exception or the end of the chain is answered by Express's
  final handler with its default page. Each of them ends the response to a \<open>HEAD\<close>
  request without a body (\<open>res.send\<close>, the final handler and the file sender all
  test \<open>req.method === 'HEAD'\<close>).
\<close>

datatype body = NoBody | StatusText string | JsonError string | StaticContent | IndexHtml | DefaultPage

datatype disposition = Reply nat body | ExecuteRequest string

datatype stage = CorsMw | LoggingMw | AuthMw | StaticMw | MountMw | SpaRoute | FinalHandler

record outcome =
  stages :: "stage list"
  set_headers :: "(string \<times> string) list"
  result :: disposition

definition res_send :: "request \<Rightarrow> body \<Rightarrow> body" where
  "res_send req b = (if req_method req = ''HEAD'' then NoBody else b)"

definition cors_origin :: "request \<Rightarrow> string" where
  "cors_origin req =
     (let fallback = ''https://'' @ (case hdr_host req of None \<Rightarrow> ''undefined'' | Some h \<Rightarrow> h)
      in case hdr_origin req of
           None \<Rightarrow> fallback
         | Some og \<Rightarrow> if og = [] then fallback else og)"

text \<open>The four CORS headers whose values are literals in the source.\<close>

definition fixed_cors_headers :: "(string \<times> string) list" where
  "fixed_cors_headers =
     [(''Access-Control-Allow-Methods'', ''GET, POST, PUT, DELETE, PROPFIND, MKCOL, OPTIONS''),
      (''Access-Control-Allow-Headers'', ''Content-Type, Depth, Authorization''),
      (''Access-Control-Allow-Credentials'', ''true''),
      (''Access-Control-Expose-Headers'', ''ETag'')]"

definition cors_headers :: "request \<Rightarrow> (string \<times> string) list" where
  "cors_headers req = (''Access-Control-Allow-Origin'', cors_origin req) # fixed_cors_headers"

definition static_mw :: "env \<Rightarrow> request \<Rightarrow> nat option" where
  "static_mw e req =
     (if production e \<and> (req_method req = ''GET'' \<or> req_method req = ''HEAD'')
      then public_file e (getPathname e (url req)) else None)"

definition after_auth :: "env \<Rightarrow> request \<Rightarrow> stage list \<Rightarrow> outcome" where
  "after_auth e req st =
     (let hs = cors_headers req;
          st1 = (if production e then st @ [StaticMw] else st)
      in case static_mw e req of
           Some code \<Rightarrow>
             \<lparr>stages = st1, set_headers = hs, result = Reply code (res_send req StaticContent)\<rparr>
         | None \<Rightarrow>
             (case mounted_url e (url req) of
                Some u \<Rightarrow>
                  \<lparr>stages = st1 @ [MountMw], set_headers = hs,
                   result = ExecuteRequest (rewrite_url u)\<rparr>
              | None \<Rightarrow>
                  if production e \<and> (req_method req = ''GET'' \<or> req_method req = ''HEAD'')
                  then \<lparr>stages = st1 @ [SpaRoute], set_headers = hs,
                        result = (if index_html e then Reply 200 (res_send req IndexHtml)
                                  else Reply 404 (res_send req DefaultPage))\<rparr>
                  else \<lparr>stages = st1 @ [FinalHandler], set_headers = hs,
                        result = Reply 404 (res_send req DefaultPage)\<rparr>))"

definition gateway :: "env \<Rightarrow> request \<Rightarrow> outcome" where
  "gateway e req =
     (let hs = cors_headers req in
      if req_method req = ''OPTIONS''
      then \<lparr>stages = [CorsMw], set_headers = hs,
            result = Reply 200 (res_send req (StatusText ''OK''))\<rparr>
      else
        (case mounted_url e (url req) of
           None \<Rightarrow> after_auth e req [CorsMw, LoggingMw]
         | Some _ \<Rightarrow>
             (case authenticate (hdr_authorization req) of
                NoHeader \<Rightarrow>
                  \<lparr>stages = [CorsMw, LoggingMw, AuthMw], set_headers = hs,
                   result = Reply 401 (res_send req (JsonError ''Authentication required''))\<rparr>
              | Rejected \<Rightarrow>
                  \<lparr>stages = [CorsMw, LoggingMw, AuthMw], set_headers = hs,
                   result = Reply 401 (res_send req (JsonError ''Invalid credentials''))\<rparr>
              | Thrown \<Rightarrow>
                  \<lparr>stages = [CorsMw, LoggingMw, AuthMw, FinalHandler], set_headers = hs,
                   result = Reply 500 (res_send req DefaultPage)\<rparr>
              | Accepted \<Rightarrow> after_auth e req [CorsMw, LoggingMw, AuthMw])))"

subsection \<open>Reading an outcome\<close>

definition reply_status :: "outcome \<Rightarrow> nat option" where
  "reply_status out = (case result out of Reply code _ \<Rightarrow> Some code | ExecuteRequest _ \<Rightarrow> None)"

definition forwarded_url :: "outcome \<Rightarrow> string option" where
  "forwarded_url out = (case result out of Reply _ _ \<Rightarrow> None | ExecuteRequest u \<Rightarrow> Some u)"

text \<open>Header names compare without regard to letter case.\<close>

definition has_header :: "string \<Rightarrow> outcome \<Rightarrow> bool" where
  "has_header name out =
     (map lower_char name \<in> set (map (\<lambda>h. map lower_char (fst h)) (set_headers out)))"

definition header_value :: "string \<Rightarrow> outcome \<Rightarrow> string option" where
  "header_value name out = map_of (set_headers out) name"

subsection \<open>The specification's wording, for comparison with the code\<close>

text \<open>
  The path rewriting as the specification words it: the request target with the
  leading \<open>/api\<close> removed once, and \<open>/\<close> when nothing is left.
\<close>

definition spec_strip_mount :: "string \<Rightarrow> string" where
  "spec_strip_mount u = (let v = drop 4 u in if v = [] then ''/'' else v)"

text \<open>
  Tokens separated by white space, as the specification words the credential parsing:
  runs of blanks separate tokens and produce no empty token.
\<close>

definition is_blank :: "char \<Rightarrow> bool" where
  "is_blank c = (c = CHR '' '' \<or> c = CHR 0x09 \<or> c = CHR 0x0A \<or> c = CHR 0x0D)"

fun spec_ws_tokens_from :: "string \<Rightarrow> string \<Rightarrow> string list" where
  "spec_ws_tokens_from cur [] = (if cur = [] then [] else [cur])"
| "spec_ws_tokens_from cur (x # xs) =
     (if is_blank x then (if cur = [] then [] else [cur]) @ spec_ws_tokens_from [] xs
      else spec_ws_tokens_from (cur @ [x]) xs)"

definition spec_ws_tokens :: "string \<Rightarrow> string list" where
  "spec_ws_tokens s = spec_ws_tokens_from [] s"

text \<open>An empty body, as the specification words the answer to \<open>OPTIONS\<close>.\<close>

definition empty_body :: "outcome \<Rightarrow> bool" where
  "empty_body out =
     (case result out of
        Reply _ NoBody \<Rightarrow> True
      | Reply _ (StatusText t) \<Rightarrow> t = []
      | _ \<Rightarrow> False)"

text \<open>The \<open>n\<close>-th field of a string split at a separator, when there is one.\<close>

definition field_at :: "char \<Rightarrow> nat \<Rightarrow> string \<Rightarrow> string option" where
  "field_at c n s = (let fs = js_split c s in if n < length fs then Some (fs ! n) else None)"

subsection \<open>Concrete requests\<close>

text \<open>
  The path of a target for the examples: the target behind its scheme and host, up to
  the first \<open>?\<close> or \<open>#\<close>. This is what \<open>parseurl\<close> returns for a target in origin
  form, or in absolute form with a path, that has no backslash, no white space and none
  of the characters \<open>url.parse\<close> escapes.
\<close>

definition plain_pathname :: "string \<Rightarrow> string" where
  "plain_pathname u =
     (let p = takeWhile (\<lambda>c. c \<noteq> CHR ''?'' \<and> c \<noteq> CHR ''#'') (drop (length (getProtohost u)) u)
      in if p = [] then ''/'' else p)"

definition dev_env :: env where
  "dev_env =
     \<lparr>production = False, public_file = (\<lambda>_. None), index_html = False,
      getPathname = plain_pathname\<rparr>"

definition prod_env :: env where
  "prod_env =
     \<lparr>production = True,
      public_file = (\<lambda>p. if p = ''/'' \<or> p = ''/index.html'' \<or> p = ''/api/readme.txt''
                         then Some 200 else None),
      index_html = True,
      getPathname = plain_pathname\<rparr>"

definition valid_basic :: string where
  "valid_basic = ''Basic V2ViRGF2RGVtbzpXZWJEYXZQYXNzd29yZA==''"

definition mk_request :: "string \<Rightarrow> string \<Rightarrow> string option \<Rightarrow> request" where
  "mk_request m u a =
     \<lparr>req_method = m, url = u, hdr_origin = Some ''http://localhost:3000'',
      hdr_host = Some ''localhost:8080'', hdr_authorization = a\<rparr>"

section \<open>The client: webdav-client/src/App.js\<close>

subsection \<open>What the browser provides\<close>

text \<open>
  \<open>decodeURIComponent\<close> (\<open>None\<close>: it throws URIError), \<open>new Date(s).toLocaleString()\<close>,
  \<open>parseInt\<close> (\<open>None\<close>: NaN), \<open>String.prototype.localeCompare\<close>, the message of
  the exception that \<open>btoa\<close> throws, and whether \<open>localStorage.setItem\<close> accepts a
  write (\<open>None\<close>) or throws, for want of quota, an exception with a message, belong to
  the browser and its locale; the client's functions take them as a parameter.
\<close>

record platform =
  decodeURIComponent :: "string \<Rightarrow> string option"
  toLocaleString :: "string \<Rightarrow> string"
  parseInt :: "string \<Rightarrow> int option"
  localeCompare :: "string \<Rightarrow> string \<Rightarrow> int"
  invalid_character_message :: string
  setItem_error :: "string option"

text \<open>
  The user name and the password are what the user typed: JavaScript strings, given
  here by their UTF-16 code units. \<open>code_units\<close> gives those of a Latin-1 text.

  \<open>btoa\<close>: base64 with padding of the bytes that the code units are. It throws an
  InvalidCharacterError (\<open>None\<close>) when a code unit is above 255.
\<close>

definition code_units :: "string \<Rightarrow> nat list" where
  "code_units s = map of_char s"

definition base64_char :: "nat \<Rightarrow> char" where
  "base64_char n =
     (if n < 26 then char_of (n + 65)
      else if n < 52 then char_of (n + 71)
      else if n < 62 then char_of (n - 4)
      else if n = 62 then CHR ''+'' else CHR ''/'')"

fun btoa_bytes :: "nat list \<Rightarrow> string" where
  "btoa_bytes (a # b # c # rest) =
     base64_char (a div 4) # base64_char ((a mod 4) * 16 + b div 16)
       # base64_char ((b mod 16) * 4 + c div 64) # base64_char (c mod 64) # btoa_bytes rest"
| "btoa_bytes [a, b] =
     [base64_char (a div 4), base64_char ((a mod 4) * 16 + b div 16),
      base64_char ((b mod 16) * 4), CHR ''='']"
| "btoa_bytes [a] = [base64_char (a div 4), base64_char ((a mod 4) * 16), CHR ''='', CHR ''='']"
| "btoa_bytes [] = []"

definition btoa :: "nat list \<Rightarrow> string option" where
  "btoa s = (if list_all (\<lambda>c. c \<le> 255) s then Some (btoa_bytes s) else None)"

function show_nat :: "nat \<Rightarrow> string" where
  "show_nat n =
     (if n < 10 then [char_of (n + 48)] else show_nat (n div 10) @ [char_of (n mod 10 + 48)])"
  by pat_completeness auto
termination
  by (relation "measure id") auto

subsection \<open>Requests and replies\<close>

text \<open>
  One \<open>D:response\<close> element of the multistatus document, in the JSON shape the client
  indexes: the text of \<open>D:href\<close>, and of the properties read with optional chaining
  (\<open>None\<close> when absent); \<open>d_collection\<close> says whether \<open>D:resourcetype\<close> holds
  \<open>D:collection\<close>. Data on which the indexing throws a TypeError is \<open>Unindexable\<close>,
  with the message of the exception.
\<close>

record dav_response =
  d_href :: string
  d_displayname :: "string option"
  d_collection :: bool
  d_getlastmodified :: "string option"
  d_getcontentlength :: "string option"

datatype payload = Multistatus "dav_response list" | Unindexable string

record http_request =
  rq_method :: string
  rq_url :: string
  rq_headers :: "(string \<times> string) list"
  rq_data :: "string option"

datatype reply = Response nat string payload | NoResponse

datatype js_error = ErrResponse nat string | ErrRequest | ErrOther string

definition error_message :: "js_error \<Rightarrow> string" where
  "error_message err =
     (case err of
        ErrResponse code _ \<Rightarrow> ''Request failed with status code '' @ show_nat code
      | ErrRequest \<Rightarrow> ''Network Error''
      | ErrOther m \<Rightarrow> m)"

subsection \<open>The state of the application\<close>

text \<open>
  The React state of \<open>App\<close>, the default Authorization header of the axios instance,
  the \<open>webdav_credentials\<close> item of \<open>localStorage\<close>, the requests issued so far
  (oldest first) and the replies the server will give, in order.
\<close>

record file_entry =
  name :: string
  href :: string
  isDirectory :: bool
  lastModified :: string
  fsize :: "int option"

record selected_file =
  file_name :: string
  file_type :: string
  file_bytes :: "string option"

record app =
  files :: "file_entry list"
  selectedFile :: "selected_file option"
  folderName :: string
  status :: string
  isAuthenticated :: bool
  authCredentials :: "(nat list \<times> nat list) option"
  default_authorization :: "string option"
  stored_credentials :: "string option"
  sent :: "http_request list"
  replies :: "reply list"

text \<open>
  A call of the axios instance: the default header is merged in, the request goes out,
  and a reply outside 200 to 299 (axios's \<open>validateStatus\<close>) or no reply rejects.
\<close>

definition axiosInstance :: "http_request \<Rightarrow> app \<Rightarrow> (js_error + nat \<times> string \<times> payload) \<times> app" where
  "axiosInstance rq st =
     (let common = (case default_authorization st of
                      None \<Rightarrow> []
                    | Some a \<Rightarrow> [(''Authorization'', a)]);
          st1 = st\<lparr>sent := sent st @ [rq\<lparr>rq_headers := common @ rq_headers rq\<rparr>],
                  replies := tl (replies st)\<rparr>
      in case replies st of
           [] \<Rightarrow> (Inl ErrRequest, st1)
         | NoResponse # _ \<Rightarrow> (Inl ErrRequest, st1)
         | Response code statusText data # _ \<Rightarrow>
             if 200 \<le> code \<and> code < 300 then (Inr (code, statusText, data), st1)
             else (Inl (ErrResponse code statusText), st1))"

subsection \<open>\<open>fetchFiles\<close> (App.js, lines 38 to 127)\<close>

definition displayName :: "platform \<Rightarrow> dav_response \<Rightarrow> string option" where
  "displayName pf r =
     (case d_displayname r of
        None \<Rightarrow> decodeURIComponent pf (last (js_split CHR ''/'' (d_href r)))
      | Some n \<Rightarrow>
          if n \<noteq> [] then Some n
          else decodeURIComponent pf (last (js_split CHR ''/'' (d_href r))))"

definition make_entry :: "platform \<Rightarrow> dav_response \<Rightarrow> string \<Rightarrow> file_entry" where
  "make_entry pf r n =
     \<lparr>name = n, href = d_href r, isDirectory = d_collection r,
      lastModified = (case d_getlastmodified r of
                        None \<Rightarrow> []
                      | Some m \<Rightarrow> if m \<noteq> [] then toLocaleString pf m else []),
      fsize = (case d_getcontentlength r of
                 None \<Rightarrow> Some 0
               | Some l \<Rightarrow> if l \<noteq> [] then parseInt pf l else Some 0)\<rparr>"

text \<open>The loop over the responses; \<open>Inl\<close> is the message of the exception that ends it.\<close>

fun parse_responses :: "platform \<Rightarrow> dav_response list \<Rightarrow> string + file_entry list" where
  "parse_responses pf [] = Inr []"
| "parse_responses pf (r # rs) =
     (if d_href r = ''http://localhost:8080/'' then parse_responses pf rs
      else
        (case displayName pf r of
           None \<Rightarrow> Inl ''URI malformed''
         | Some n \<Rightarrow>
             (case parse_responses pf rs of
                Inl m \<Rightarrow> Inl m
              | Inr es \<Rightarrow> Inr (make_entry pf r n # es))))"

text \<open>
  The comparator of lines 100 to 105, and \<open>Array.prototype.sort\<close> as the stable sort
  it is required to be.
\<close>

definition compareEntries :: "platform \<Rightarrow> file_entry \<Rightarrow> file_entry \<Rightarrow> int" where
  "compareEntries pf a b =
     (if isDirectory a = isDirectory b then localeCompare pf (name a) (name b)
      else if isDirectory a then - 1 else 1)"

fun insert_by :: "('a \<Rightarrow> 'a \<Rightarrow> int) \<Rightarrow> 'a \<Rightarrow> 'a list \<Rightarrow> 'a list" where
  "insert_by cmp x [] = [x]"
| "insert_by cmp x (y # ys) = (if cmp x y \<le> 0 then x # y # ys else y # insert_by cmp x ys)"

fun sort_by :: "('a \<Rightarrow> 'a \<Rightarrow> int) \<Rightarrow> 'a list \<Rightarrow> 'a list" where
  "sort_by cmp [] = []"
| "sort_by cmp (x # xs) = insert_by cmp x (sort_by cmp xs)"

definition fetch_error_status :: "js_error \<Rightarrow> string" where
  "fetch_error_status err =
     (case err of
        ErrResponse code statusText \<Rightarrow> ''Server error: '' @ show_nat code @ '' - '' @ statusText
      | ErrRequest \<Rightarrow> ''No response from server. Is the server running?''
      | ErrOther m \<Rightarrow> ''Error: '' @ m)"

definition propfind_root :: "(string \<times> string) list \<Rightarrow> http_request" where
  "propfind_root hs = \<lparr>rq_method = ''PROPFIND'', rq_url = ''/'', rq_headers = hs, rq_data = None\<rparr>"

definition fetchFiles :: "platform \<Rightarrow> app \<Rightarrow> app" where
  "fetchFiles pf st =
     (case axiosInstance (propfind_root [(''Depth'', ''1'')]) st of
        (Inl err, st1) \<Rightarrow> st1\<lparr>status := fetch_error_status err\<rparr>
      | (Inr (code, statusText, data), st1) \<Rightarrow>
          (case data of
             Unindexable m \<Rightarrow> st1\<lparr>status := ''Error: '' @ m\<rparr>
           | Multistatus responses \<Rightarrow>
               (case parse_responses pf responses of
                  Inl m \<Rightarrow> st1\<lparr>status := ''Error: '' @ m\<rparr>
                | Inr fileList \<Rightarrow>
                    (let sortedFiles = sort_by (compareEntries pf) fileList
                     in if sortedFiles \<noteq> []
                        then st1\<lparr>files := sortedFiles, status := ''Files fetched successfully''\<rparr>
                        else st1\<lparr>status := ''No files or folders found''\<rparr>))))"

subsection \<open>\<open>uploadFile\<close>, \<open>createFolder\<close>, \<open>deleteItem\<close> (lines 130 to 212)\<close>

text \<open>\<open>file_bytes = None\<close>: the FileReader fails and \<open>onerror\<close> runs.\<close>

definition uploadFile :: "platform \<Rightarrow> app \<Rightarrow> app" where
  "uploadFile pf st =
     (case selectedFile st of
        None \<Rightarrow> st\<lparr>status := ''Please select a file first''\<rparr>
      | Some f \<Rightarrow>
          (case file_bytes f of
             None \<Rightarrow> st\<lparr>status := ''Failed to read file''\<rparr>
           | Some bytes \<Rightarrow>
               (case axiosInstance
                       \<lparr>rq_method = ''PUT'', rq_url = ''/'' @ file_name f,
                        rq_headers =
                          [(''Content-Type'',
                            if file_type f \<noteq> [] then file_type f
                            else ''application/octet-stream'')],
                        rq_data = Some bytes\<rparr> st of
                  (Inl err, st1) \<Rightarrow> st1\<lparr>status := ''Upload failed: '' @ error_message err\<rparr>
                | (Inr _, st1) \<Rightarrow>
                    fetchFiles pf (st1\<lparr>status := ''File uploaded successfully!''\<rparr>))))"

definition createFolder :: "platform \<Rightarrow> app \<Rightarrow> app" where
  "createFolder pf st =
     (if folderName st = [] then st\<lparr>status := ''Please enter a folder name''\<rparr>
      else
        (case axiosInstance
                \<lparr>rq_method = ''MKCOL'', rq_url = ''/'' @ folderName st, rq_headers = [],
                 rq_data = None\<rparr> st of
           (Inl err, st1) \<Rightarrow> st1\<lparr>status := ''Folder creation error: '' @ error_message err\<rparr>
         | (Inr _, st1) \<Rightarrow>
             fetchFiles pf (st1\<lparr>status := ''Folder created successfully!'', folderName := []\<rparr>)))"

definition deleteItem :: "platform \<Rightarrow> string \<Rightarrow> app \<Rightarrow> app" where
  "deleteItem pf n st =
     (case axiosInstance
             \<lparr>rq_method = ''DELETE'', rq_url = ''/'' @ n, rq_headers = [], rq_data = None\<rparr> st of
        (Inl err, st1) \<Rightarrow> st1\<lparr>status := ''Delete error: '' @ error_message err\<rparr>
      | (Inr _, st1) \<Rightarrow> fetchFiles pf (st1\<lparr>status := n @ '' deleted successfully!''\<rparr>))"

subsection \<open>\<open>handleLogin\<close> (lines 249 to 299)\<close>

text \<open>
  The \<open>catch\<close> block: the default header and the stored item are removed, and the
  function throws; \<open>Inl\<close> carries the message of the error thrown.
\<close>

definition login_failed :: "js_error \<Rightarrow> app \<Rightarrow> (string + unit) \<times> app" where
  "login_failed err st =
     (Inl (case err of
             ErrResponse code _ \<Rightarrow>
               if code = 401 then ''Invalid credentials''
               else ''Authentication failed: '' @ error_message err
           | _ \<Rightarrow> ''Authentication failed: '' @ error_message err),
      st\<lparr>default_authorization := None, stored_credentials := None\<rparr>)"

definition login_probe :: http_request where
  "login_probe =
     propfind_root
       [(''Depth'', ''1''), (''Content-Type'', ''application/xml''), (''Accept'', ''application/json'')]"

text \<open>
  The template string \<open>`${username}:${password}`\<close> joins the two with a colon (code
  unit 58). When \<open>btoa\<close> throws, the \<open>catch\<close> block runs before the default header
  is set and before any request is made. When \<open>localStorage.setItem\<close> throws, it runs
  after \<open>setAuthCredentials\<close> and \<open>setIsAuthenticated(true)\<close>.
\<close>

definition handleLogin :: "platform \<Rightarrow> nat list \<Rightarrow> nat list \<Rightarrow> app \<Rightarrow> (string + unit) \<times> app" where
  "handleLogin pf username password st =
     (case btoa (username @ [58] @ password) of
        None \<Rightarrow> login_failed (ErrOther (invalid_character_message pf)) st
      | Some encoded \<Rightarrow>
          (let st1 = st\<lparr>default_authorization := Some (''Basic '' @ encoded)\<rparr>
           in case axiosInstance login_probe st1 of
                (Inl err, st2) \<Rightarrow> login_failed err st2
              | (Inr (code, statusText, data), st2) \<Rightarrow>
                  if code = 207 \<or> code = 200
                  then
                    (let st3 = st2\<lparr>authCredentials := Some (username, password),
                                    isAuthenticated := True\<rparr>
                     in case setItem_error pf of
                          Some m \<Rightarrow> login_failed (ErrOther m) st3
                        | None \<Rightarrow>
                            (Inr (), fetchFiles pf (st3\<lparr>stored_credentials := Some encoded\<rparr>)))
                  else login_failed (ErrOther ''Unexpected response status'') st2))"

subsection \<open>Concrete states, a browser and listings\<close>

text \<open>
  The state when \<open>App\<close> mounts (the initial values of its \<open>useState\<close> calls, no
  default header, nothing stored), with the replies the server will give.
\<close>

definition initial_app :: "reply list \<Rightarrow> app" where
  "initial_app rs =
     \<lparr>files = [], selectedFile = None, folderName = [], status = [], isAuthenticated = False,
      authCredentials = None, default_authorization = None, stored_credentials = None,
      sent = [], replies = rs\<rparr>"

text \<open>
  A browser to evaluate examples with, exact on the inputs the examples give it. Names
  made of ASCII letters and digits are collated as \<open>localeCompare\<close> with default
  options collates them under the root collation: by their letters without regard to
  case first, and among names that are then equal, lower case before upper case. A
  string without a percent sign decodes to itself; a string with one is taken for
  malformed, as it is when no two hexadecimal digits follow the sign. The leading digits
  of a string are read as a decimal number. A date is shown as received.
\<close>

definition primary_weights :: "string \<Rightarrow> nat list" where
  "primary_weights s =
     map (\<lambda>c. let n = (of_char c :: nat) in if 65 \<le> n \<and> n \<le> 90 then n + 32 else n) s"

definition tertiary_weights :: "string \<Rightarrow> nat list" where
  "tertiary_weights s =
     map (\<lambda>c. let n = (of_char c :: nat) in if 65 \<le> n \<and> n \<le> 90 then 1 else 0) s"

definition collation_key :: "string \<Rightarrow> nat list \<times> nat list" where
  "collation_key s = (primary_weights s, tertiary_weights s)"

definition collate :: "string \<Rightarrow> string \<Rightarrow> int" where
  "collate a b =
     (if collation_key a < collation_key b then - 1
      else if collation_key a = collation_key b then 0 else 1)"

definition is_digit :: "char \<Rightarrow> bool" where
  "is_digit c = (48 \<le> (of_char c :: nat) \<and> (of_char c :: nat) \<le> 57)"

definition parse_decimal :: "string \<Rightarrow> int option" where
  "parse_decimal s =
     (let ds = takeWhile is_digit s
      in if ds = [] then None
         else Some (foldl (\<lambda>n c. 10 * n + (int (of_char c) - 48)) 0 ds))"

definition plain_browser :: platform where
  "plain_browser =
     \<lparr>decodeURIComponent = (\<lambda>s. if CHR ''%'' \<in> set s then None else Some s),
      toLocaleString = (\<lambda>s. s),
      parseInt = parse_decimal,
      localeCompare = collate,
      invalid_character_message =
        ''The string to be encoded contains characters outside of the Latin1 range.'',
      setItem_error = None\<rparr>"

text \<open>The same browser with its storage full.\<close>

definition full_browser :: platform where
  "full_browser = plain_browser\<lparr>setItem_error := Some ''The quota has been exceeded.''\<rparr>"

text \<open>
  The comparison as the specification words it: names compared without regard to
  letter case, so that two names differing only in case compare equal.
\<close>

definition spec_compare_names :: "string \<Rightarrow> string \<Rightarrow> int" where
  "spec_compare_names a b =
     (if primary_weights a < primary_weights b then - 1
      else if primary_weights a = primary_weights b then 0 else 1)"

definition spec_compareEntries :: "file_entry \<Rightarrow> file_entry \<Rightarrow> int" where
  "spec_compareEntries a b =
     (if isDirectory a = isDirectory b then spec_compare_names (name a) (name b)
      else if isDirectory a then - 1 else 1)"

definition plain_file :: "string \<Rightarrow> file_entry" where
  "plain_file n =
     \<lparr>name = n, href = ''https://files.example.com/'' @ n, isDirectory = False,
      lastModified = [], fsize = Some 0\<rparr>"

definition plain_folder :: "string \<Rightarrow> file_entry" where
  "plain_folder n =
     \<lparr>name = n, href = ''https://files.example.com/'' @ n @ ''/'', isDirectory = True,
      lastModified = [], fsize = Some 0\<rparr>"

text \<open>
  Entries of a multistatus response: the root collection as the development server and
  as a hosted server name it, a file without a display name, and a file whose name in
  the \<open>href\<close> ends in a percent sign.
\<close>

definition local_root :: dav_response where
  "local_root =
     \<lparr>d_href = ''http://localhost:8080/'', d_displayname = None, d_collection = True,
      d_getlastmodified = None, d_getcontentlength = None\<rparr>"

definition hosted_root :: dav_response where
  "hosted_root =
     \<lparr>d_href = ''https://files.example.com/'', d_displayname = Some ''data'',
      d_collection = True, d_getlastmodified = None, d_getcontentlength = None\<rparr>"

definition notes_entry :: dav_response where
  "notes_entry =
     \<lparr>d_href = ''https://files.example.com/notes.txt'', d_displayname = None,
      d_collection = False, d_getlastmodified = None, d_getcontentlength = Some ''12''\<rparr>"

definition percent_entry :: dav_response where
  "percent_entry =
     \<lparr>d_href = ''https://files.example.com/100%'', d_displayname = None,
      d_collection = False, d_getlastmodified = None, d_getcontentlength = Some ''12''\<rparr>"

section \<open>Properties of the gateway\<close>

lemma js_split_nonempty: "js_split c s \<noteq> []"
  by (induction s) (auto split: list.splits)

lemma js_split_no_sep: "c \<notin> set s \<Longrightarrow> js_split c s = [s]"
  by (induction s) auto

lemma js_split_at_sep: "c \<notin> set a \<Longrightarrow> js_split c (a @ c # b) = a # js_split c b"
  by (induction a) auto

lemma js_split_single_iff: "(\<exists>x. js_split c s = [x]) \<longleftrightarrow> c \<notin> set s"
proof
  assume "\<exists>x. js_split c s = [x]"
  then show "c \<notin> set s"
  proof (induction s)
    case Nil then show ?case by simp
  next
    case (Cons a s)
    then show ?case using js_split_nonempty[of c s]
      by (auto split: if_splits list.splits)
  qed
next
  assume "c \<notin> set s" then show "\<exists>x. js_split c s = [x]" by (simp add: js_split_no_sep)
qed

lemma base64Credentials_None_iff: "base64Credentials a = None \<longleftrightarrow> CHR '' '' \<notin> set a"
proof -
  have "base64Credentials a = None \<longleftrightarrow> (\<exists>x. js_split CHR '' '' a = [x])"
    using js_split_nonempty[of "CHR '' ''" a]
    by (auto simp: base64Credentials_def split: list.splits)
  then show ?thesis by (simp add: js_split_single_iff)
qed

lemma no_challenge: "set_headers out = cors_headers req \<Longrightarrow> \<not> has_header ''WWW-Authenticate'' out"
  by (simp add: has_header_def cors_headers_def fixed_cors_headers_def lower_char_def)

lemma gateway_headers: "set_headers (gateway e req) = cors_headers req"
  by (simp add: gateway_def after_auth_def Let_def split: option.splits auth_result.splits)

lemma res_send_not_head: "req_method req \<noteq> ''HEAD'' \<Longrightarrow> res_send req b = b"
  by (simp add: res_send_def)

lemma gateway_options:
  "req_method req = ''OPTIONS'' \<Longrightarrow>
     gateway e req = \<lparr>stages = [CorsMw], set_headers = cors_headers req, result = Reply 200 (StatusText ''OK'')\<rparr>"
  by (simp add: gateway_def res_send_def)

lemma gateway_mounted:
  "req_method req \<noteq> ''OPTIONS'' \<Longrightarrow> mounted_url e (url req) = Some u \<Longrightarrow>
   gateway e req =
     (case authenticate (hdr_authorization req) of
        NoHeader \<Rightarrow> \<lparr>stages = [CorsMw, LoggingMw, AuthMw], set_headers = cors_headers req,
                   result = Reply 401 (res_send req (JsonError ''Authentication required''))\<rparr>
      | Rejected \<Rightarrow> \<lparr>stages = [CorsMw, LoggingMw, AuthMw], set_headers = cors_headers req,
                   result = Reply 401 (res_send req (JsonError ''Invalid credentials''))\<rparr>
      | Thrown \<Rightarrow> \<lparr>stages = [CorsMw, LoggingMw, AuthMw, FinalHandler], set_headers = cors_headers req,
                   result = Reply 500 (res_send req DefaultPage)\<rparr>
      | Accepted \<Rightarrow> after_auth e req [CorsMw, LoggingMw, AuthMw])"
  by (simp add: gateway_def Let_def)

lemma after_auth_mounted:
  "static_mw e req = None \<Longrightarrow> mounted_url e (url req) = Some u \<Longrightarrow>
   result (after_auth e req st) = ExecuteRequest (rewrite_url u)"
  by (simp add: after_auth_def Let_def)

lemma authenticate_NoHeader: "authenticate h = NoHeader \<longleftrightarrow> h = None \<or> h = Some []"
  by (auto simp: authenticate_def split: option.splits if_splits)

lemma authenticate_Thrown:
  "authenticate h = Thrown \<longleftrightarrow> (\<exists>a. h = Some a \<and> a \<noteq> [] \<and> CHR '' '' \<notin> set a)"
  by (auto simp: authenticate_def base64Credentials_None_iff [symmetric]
           split: option.splits if_splits)

lemma base64Credentials_Nil: "base64Credentials [] = None"
  by (simp add: base64Credentials_def)

lemma authenticate_Accepted:
  "authenticate h = Accepted \<longleftrightarrow>
     (\<exists>a t. h = Some a \<and> base64Credentials a = Some t \<and> credentials_match (decode_credentials t))"
  by (auto simp: authenticate_def base64Credentials_Nil split: option.splits if_splits)

lemma authenticate_Rejected:
  "authenticate h = Rejected \<longleftrightarrow>
     (\<exists>a t. h = Some a \<and> base64Credentials a = Some t \<and> \<not> credentials_match (decode_credentials t))"
  by (auto simp: authenticate_def base64Credentials_Nil split: option.splits if_splits)


lemma mk_request_simps:
  "req_method (mk_request m u a) = m" "url (mk_request m u a) = u"
  "hdr_origin (mk_request m u a) = Some ''http://localhost:3000''"
  "hdr_host (mk_request m u a) = Some ''localhost:8080''"
  "hdr_authorization (mk_request m u a) = a"
  by (simp_all add: mk_request_def)

lemma static_mw_dev: "static_mw dev_env req = None"
  by (simp add: static_mw_def dev_env_def)

lemma plain_pathname_examples:
  "plain_pathname ''/api/foo'' = ''/api/foo''"
  "plain_pathname ''/api'' = ''/api''"
  "plain_pathname ''/api/api/foo'' = ''/api/api/foo''"
  "plain_pathname ''/api/readme.txt'' = ''/api/readme.txt''"
  by code_simp+

lemma getPathname_plain:
  "getPathname dev_env = plain_pathname" "getPathname prod_env = plain_pathname"
  by (simp_all add: dev_env_def prod_env_def)

lemma mounted_url_origin_form:
  assumes "take 1 u = ''/''"
  shows "mounted_url e u =
           (case mount_match (getPathname e u) of
              None \<Rightarrow> None
            | Some m \<Rightarrow>
                Some (if take 1 (drop (length m) u) = ''/'' then drop (length m) u
                      else CHR ''/'' # drop (length m) u))"
  using assms by (simp add: mounted_url_def getProtohost_def Let_def split: option.splits)

lemma mounted_url_None_iff: "mounted_url e u = None \<longleftrightarrow> mount_match (getPathname e u) = None"
  by (simp add: mounted_url_def Let_def split: option.splits)

lemma mount_match_iff:
  "mount_match p \<noteq> None \<longleftrightarrow>
     map lower_char (take 4 p) = ''/api'' \<and> (drop 4 p = [] \<or> take 1 (drop 4 p) = ''/'')"
proof (cases "drop 4 p")
  case Nil
  then show ?thesis by (simp add: mount_match_def)
next
  case (Cons c cs)
  then show ?thesis
    by (cases cs) (auto simp: mount_match_def Let_def)
qed

lemma mount_match_examples:
  "mount_match ''/api/foo'' = Some ''/api''"
  "mount_match ''/api'' = Some ''/api''"
  "mount_match ''/api/api/foo'' = Some ''/api''"
  "mount_match ''/api/readme.txt'' = Some ''/api''"
  by code_simp+

lemma mounted_api_foo:
  "getPathname e = plain_pathname \<Longrightarrow> mounted_url e ''/api/foo'' = Some ''/foo''"
  by (simp add: mounted_url_origin_form plain_pathname_examples mount_match_examples)

lemma mounted_api:
  "getPathname e = plain_pathname \<Longrightarrow> mounted_url e ''/api'' = Some ''/''"
  by (simp add: mounted_url_origin_form plain_pathname_examples mount_match_examples)

lemma mounted_api_api_foo:
  "getPathname e = plain_pathname \<Longrightarrow> mounted_url e ''/api/api/foo'' = Some ''/api/foo''"
  by (simp add: mounted_url_origin_form plain_pathname_examples mount_match_examples)


lemma valid_basic_token: "base64Credentials valid_basic = Some ''V2ViRGF2RGVtbzpXZWJEYXZQYXNzd29yZA==''"
  unfolding valid_basic_def by code_simp

lemma valid_basic_decodes:
  "decode_credentials ''V2ViRGF2RGVtbzpXZWJEYXZQYXNzd29yZA=='' = ''WebDavDemo:WebDavPassword''"
  by code_simp

lemma pair_matches: "credentials_match ''WebDavDemo:WebDavPassword''"
  by code_simp

lemma valid_basic_accepted: "authenticate (Some valid_basic) = Accepted"
  by (simp add: authenticate_Accepted valid_basic_token valid_basic_decodes pair_matches)

subsection \<open>Requests without valid credentials\<close>

text \<open>
  Targets with a query, with a fragment and in absolute form are mounted as well, and a
  path that only begins with the letters of the mount is not.
\<close>

lemma other_target_forms:
  "mounted_url dev_env ''/api#x'' = Some ''/#x''"
  "mounted_url dev_env ''/api?depth=1'' = Some ''/?depth=1''"
  "mounted_url dev_env ''http://localhost:8080/api/foo'' = Some ''http://localhost:8080/foo''"
  "mounted_url dev_env ''/apifoo'' = None"
  unfolding dev_env_def by code_simp+

lemma fragment_target_gets_401:
  "reply_status (gateway dev_env (mk_request ''GET'' ''/api#x'' None)) = Some 401"
  by (simp add: gateway_mounted [where u = "''/#x''"] mk_request_simps other_target_forms
      authenticate_def reply_status_def)

text \<open>
  Claim C1, as amended. For every request whose verb is not \<open>OPTIONS\<close>, whose path
  (as Express reads it off the request target) is under the mount \<open>/api\<close>, and whose
  Authorization header is absent, empty, or has a token after its first space that does
  not decode to the credential pair, the gateway answers 401 and does not forward. The
  body is a JSON error object, and none for a \<open>HEAD\<close> request. The headers the gateway
  sets are the CORS headers, and no \<open>WWW-Authenticate\<close> challenge is among them.
\<close>

theorem unauthenticated_request_gets_401:
  assumes "req_method req \<noteq> ''OPTIONS''"
    and "mount_match (getPathname e (url req)) \<noteq> None"
    and "hdr_authorization req = None \<or> hdr_authorization req = Some [] \<or>
         (\<exists>a t. hdr_authorization req = Some a \<and> base64Credentials a = Some t \<and>
                \<not> credentials_match (decode_credentials t))"
  shows "reply_status (gateway e req) = Some 401 \<and>
         (\<exists>msg. result (gateway e req) =
                  Reply 401 (if req_method req = ''HEAD'' then NoBody else JsonError msg)) \<and>
         forwarded_url (gateway e req) = None \<and>
         set_headers (gateway e req) = cors_headers req \<and>
         \<not> has_header ''WWW-Authenticate'' (gateway e req)"
proof -
  obtain u where u: "mounted_url e (url req) = Some u"
    using assms(2) mounted_url_None_iff [of e "url req"] by auto
  have "authenticate (hdr_authorization req) = NoHeader \<or>
        authenticate (hdr_authorization req) = Rejected"
    using assms(3) by (auto simp: authenticate_NoHeader authenticate_Rejected)
  then have "\<exists>msg. result (gateway e req) =
                  Reply 401 (if req_method req = ''HEAD'' then NoBody else JsonError msg)"
    using assms(1) u by (auto simp: gateway_mounted res_send_def)
  moreover have "set_headers (gateway e req) = cors_headers req"
    by (rule gateway_headers)
  ultimately show ?thesis
    using no_challenge [of "gateway e req" req]
    by (auto simp: reply_status_def forwarded_url_def)
qed

theorem unauthenticated_request_gets_401_witness:
  "req_method (mk_request ''GET'' ''/api/foo'' None) \<noteq> ''OPTIONS'' \<and>
   mount_match (getPathname prod_env (url (mk_request ''GET'' ''/api/foo'' None))) \<noteq> None \<and>
   hdr_authorization (mk_request ''GET'' ''/api/foo'' None) = None \<and>
   reply_status (gateway prod_env (mk_request ''GET'' ''/api/foo'' None)) = Some 401 \<and>
   result (gateway prod_env (mk_request ''GET'' ''/api/foo'' None)) =
     Reply 401 (JsonError ''Authentication required'') \<and>
   result (gateway prod_env (mk_request ''HEAD'' ''/api/foo'' None)) = Reply 401 NoBody \<and>
   \<not> has_header ''WWW-Authenticate'' (gateway prod_env (mk_request ''GET'' ''/api/foo'' None))"
proof -
  have a: "req_method (mk_request ''GET'' ''/api/foo'' None) \<noteq> ''OPTIONS''"
    by (simp add: mk_request_simps)
  have b: "mount_match (getPathname prod_env (url (mk_request ''GET'' ''/api/foo'' None))) \<noteq> None"
    by (simp add: mk_request_simps getPathname_plain plain_pathname_examples mount_match_examples)
  have c: "hdr_authorization (mk_request ''GET'' ''/api/foo'' None) = None"
    by (simp add: mk_request_simps)
  have d: "result (gateway prod_env (mk_request ''GET'' ''/api/foo'' None)) =
             Reply 401 (JsonError ''Authentication required'')"
          "result (gateway prod_env (mk_request ''HEAD'' ''/api/foo'' None)) = Reply 401 NoBody"
    by (simp_all add: gateway_mounted [where u = "''/foo''"] mk_request_simps mounted_api_foo
        getPathname_plain authenticate_def res_send_def)
  show ?thesis
    using a b c d unauthenticated_request_gets_401 [of "mk_request ''GET'' ''/api/foo'' None" prod_env]
    by simp
qed

text \<open>
  The claim as stated fails: a request for \<open>/api/foo\<close> without an Authorization header
  is answered 401 with no \<open>WWW-Authenticate\<close> header; an \<open>OPTIONS\<close> request without
  credentials is answered 200; a header with no space makes the middleware throw, and
  the answer is the final handler's 500.
\<close>

theorem challenge_header_counterexample:
  "mounted_url dev_env (url (mk_request ''GET'' ''/api/foo'' None)) = Some ''/foo'' \<and>
   hdr_authorization (mk_request ''GET'' ''/api/foo'' None) = None \<and>
   reply_status (gateway dev_env (mk_request ''GET'' ''/api/foo'' None)) = Some 401 \<and>
   \<not> has_header ''WWW-Authenticate'' (gateway dev_env (mk_request ''GET'' ''/api/foo'' None)) \<and>
   reply_status (gateway dev_env (mk_request ''OPTIONS'' ''/api/foo'' None)) = Some 200 \<and>
   reply_status (gateway dev_env (mk_request ''GET'' ''/api/foo'' (Some ''Basic''))) = Some 500"
proof -
  have "authenticate (Some ''Basic'') = Thrown"
    by (simp add: authenticate_Thrown)
  then show ?thesis
    using no_challenge [OF gateway_headers, of dev_env "mk_request ''GET'' ''/api/foo'' None"]
    by (simp add: gateway_mounted [where u = "''/foo''"] gateway_options mk_request_simps
        mounted_api_foo getPathname_plain authenticate_def reply_status_def)
qed

subsection \<open>The CORS headers\<close>

text \<open>
  Claim C2, as amended. For every request and in every configuration the gateway sets
  the five CORS headers. Four have fixed values. \<open>Access-Control-Allow-Origin\<close> is
  the request's own \<open>Origin\<close> header when that is present and not empty, and
  \<open>https://\<close> followed by the request's \<open>Host\<close> header otherwise.
\<close>

theorem allow_origin_echoes_request:
  "set_headers (gateway e req) =
     (''Access-Control-Allow-Origin'', cors_origin req) # fixed_cors_headers \<and>
   (\<forall>og. hdr_origin req = Some og \<and> og \<noteq> [] \<longrightarrow>
      header_value ''Access-Control-Allow-Origin'' (gateway e req) = Some og) \<and>
   (hdr_origin req = None \<or> hdr_origin req = Some [] \<longrightarrow>
      header_value ''Access-Control-Allow-Origin'' (gateway e req) =
        Some (''https://'' @ (case hdr_host req of None \<Rightarrow> ''undefined'' | Some h \<Rightarrow> h)))"
  by (auto simp: gateway_headers header_value_def cors_headers_def fixed_cors_headers_def cors_origin_def)

theorem allow_origin_echoes_request_witness:
  "hdr_origin (mk_request ''GET'' ''/api/foo'' None) = Some ''http://localhost:3000'' \<and>
   header_value ''Access-Control-Allow-Origin''
     (gateway prod_env (mk_request ''GET'' ''/api/foo'' None)) = Some ''http://localhost:3000'' \<and>
   header_value ''Access-Control-Allow-Origin''
     (gateway prod_env ((mk_request ''GET'' ''/api/foo'' None)\<lparr>hdr_origin := None\<rparr>)) =
       Some ''https://localhost:8080''"
  using allow_origin_echoes_request [of prod_env "mk_request ''GET'' ''/api/foo'' None"]
    allow_origin_echoes_request
      [of prod_env "(mk_request ''GET'' ''/api/foo'' None)\<lparr>hdr_origin := None\<rparr>"]
  by (simp add: mk_request_def)

text \<open>
  The claim as stated fails: in one configuration, two requests that differ only in
  their \<open>Origin\<close> header get different \<open>Access-Control-Allow-Origin\<close> values.
\<close>

theorem allow_origin_varies_counterexample:
  "header_value ''Access-Control-Allow-Origin''
     (gateway prod_env (mk_request ''GET'' ''/api/foo'' None)) = Some ''http://localhost:3000'' \<and>
   header_value ''Access-Control-Allow-Origin''
     (gateway prod_env
        ((mk_request ''GET'' ''/api/foo'' None)\<lparr>hdr_origin := Some ''https://evil.example''\<rparr>)) =
       Some ''https://evil.example''"
  by (simp add: gateway_headers header_value_def cors_headers_def fixed_cors_headers_def cors_origin_def mk_request_def)

subsection \<open>The path handed to the engine\<close>

text \<open>
  Claim C3. Express has already cut the mount path off \<open>req.url\<close> when the mount
  handler runs, and the handler's \<open>replace(/^\/api/, '')\<close> cuts a second \<open>/api\<close>.
  An authenticated request for \<open>/api/api/foo\<close> reaches the engine as \<open>/foo\<close>, where
  the request target with its leading \<open>/api\<close> removed is \<open>/api/foo\<close>.
\<close>

theorem mount_prefix_stripped_twice:
  "authenticate (hdr_authorization (mk_request ''GET'' ''/api/api/foo'' (Some valid_basic))) = Accepted \<and>
   forwarded_url (gateway dev_env (mk_request ''GET'' ''/api/api/foo'' (Some valid_basic))) = Some ''/foo'' \<and>
   spec_strip_mount (url (mk_request ''GET'' ''/api/api/foo'' (Some valid_basic))) = ''/api/foo''"
proof -
  have "rewrite_url ''/api/foo'' = ''/foo''"
    by (simp add: rewrite_url_def)
  then show ?thesis
    by (simp add: gateway_mounted [where u = "''/api/foo''"] mk_request_simps mounted_api_api_foo
        getPathname_plain valid_basic_accepted after_auth_mounted static_mw_dev forwarded_url_def
        spec_strip_mount_def)
qed

text \<open>
  The two examples the specification names do hold, and so does every request whose
  path below the mount does not itself begin with \<open>/api\<close>.
\<close>

lemma spec_examples_forwarded:
  "forwarded_url (gateway dev_env (mk_request ''GET'' ''/api/foo'' (Some valid_basic))) = Some ''/foo''"
  "forwarded_url (gateway dev_env (mk_request ''GET'' ''/api'' (Some valid_basic))) = Some ''/''"
  by (simp_all add: gateway_mounted [where u = "''/foo''"] gateway_mounted [where u = "''/''"]
      mk_request_simps mounted_api_foo mounted_api getPathname_plain
      valid_basic_accepted after_auth_mounted static_mw_dev forwarded_url_def rewrite_url_def)

lemma rewrite_url_idle: "u \<noteq> [] \<Longrightarrow> take 4 u \<noteq> ''/api'' \<Longrightarrow> rewrite_url u = u"
  by (simp add: rewrite_url_def)

lemma mounted_url_nonempty: "mounted_url e t = Some u \<Longrightarrow> u \<noteq> []"
  by (auto simp: mounted_url_def Let_def split: option.splits if_splits)

lemma forwarded_single_strip:
  assumes "req_method req \<noteq> ''OPTIONS''"
    and "mounted_url e (url req) = Some u"
    and "take 4 u \<noteq> ''/api''"
    and "static_mw e req = None"
    and "authenticate (hdr_authorization req) = Accepted"
  shows "forwarded_url (gateway e req) = Some u"
  using assms mounted_url_nonempty [OF assms(2)]
  by (simp add: gateway_mounted after_auth_mounted forwarded_url_def rewrite_url_idle)

subsection \<open>Forwarding and the OPTIONS short-circuit\<close>





text \<open>
  Claim C5, as amended. Every \<open>OPTIONS\<close> request is answered with status 200 and the
  status text \<open>OK\<close> as body, whatever its Authorization header; only the CORS
  middleware runs, so neither the authentication middleware nor the engine is reached.
\<close>

theorem options_short_circuit:
  assumes "req_method req = ''OPTIONS''"
  shows "result (gateway e req) = Reply 200 (StatusText ''OK'') \<and>
         stages (gateway e req) = [CorsMw] \<and>
         AuthMw \<notin> set (stages (gateway e req)) \<and>
         MountMw \<notin> set (stages (gateway e req)) \<and>
         forwarded_url (gateway e req) = None"
  using assms by (simp add: gateway_options forwarded_url_def)

theorem options_short_circuit_witness:
  "req_method (mk_request ''OPTIONS'' ''/api/foo'' None) = ''OPTIONS'' \<and>
   result (gateway prod_env (mk_request ''OPTIONS'' ''/api/foo'' None)) = Reply 200 (StatusText ''OK'') \<and>
   result (gateway prod_env (mk_request ''OPTIONS'' ''/api/foo'' (Some valid_basic))) =
     Reply 200 (StatusText ''OK'') \<and>
   stages (gateway prod_env (mk_request ''OPTIONS'' ''/api/foo'' (Some ''Basic''))) = [CorsMw]"
proof -
  have a: "req_method (mk_request ''OPTIONS'' ''/api/foo'' x) = ''OPTIONS''" for x
    by (simp add: mk_request_simps)
  show ?thesis
    using a [of None]
      options_short_circuit [OF a [of None], of prod_env]
      options_short_circuit [OF a [of "Some valid_basic"], of prod_env]
      options_short_circuit [OF a [of "Some ''Basic''"], of prod_env]
    by simp
qed

text \<open>
  The claim as stated fails: \<open>res.sendStatus(200)\<close> sends the body \<open>OK\<close>, not an
  empty one.
\<close>

theorem options_body_counterexample:
  "result (gateway dev_env (mk_request ''OPTIONS'' ''/api/foo'' None)) =
     Reply 200 (StatusText ''OK'') \<and>
   \<not> empty_body (gateway dev_env (mk_request ''OPTIONS'' ''/api/foo'' None))"
  by (simp add: gateway_options mk_request_simps empty_body_def)

subsection \<open>What the credential check reads\<close>

lemma base64Credentials_field: "base64Credentials a = field_at CHR '' '' 1 a"
  using js_split_nonempty [of "CHR '' ''" a]
  by (auto simp: base64Credentials_def field_at_def Let_def split: list.splits)

lemma credentials_match_fields:
  "credentials_match c \<longleftrightarrow>
     field_at CHR '':'' 0 c = Some ''WebDavDemo'' \<and> field_at CHR '':'' 1 c = Some ''WebDavPassword''"
  using js_split_nonempty [of "CHR '':''" c]
  by (auto simp: credentials_match_def field_at_def Let_def split: list.splits)

lemma base64Credentials_scheme:
  "CHR '' '' \<notin> set scheme \<Longrightarrow>
   base64Credentials (scheme @ CHR '' '' # rest) = Some (hd (js_split CHR '' '' rest))"
  using js_split_nonempty [of "CHR '' ''" rest]
  by (auto simp: base64Credentials_def js_split_at_sep split: list.splits)

lemma authenticate_scheme:
  "CHR '' '' \<notin> set scheme \<Longrightarrow>
   authenticate (Some (scheme @ CHR '' '' # rest)) =
     (if credentials_match (decode_credentials (hd (js_split CHR '' '' rest)))
      then Accepted else Rejected)"
  by (simp add: authenticate_def base64Credentials_scheme)

lemma credentials_match_suffix:
  "credentials_match (''WebDavDemo:WebDavPassword'' @ CHR '':'' # extra)"
proof -
  have p: "js_split CHR '':'' (''WebDavPassword'' @ CHR '':'' # extra) =
          ''WebDavPassword'' # js_split CHR '':'' extra"
    by (rule js_split_at_sep) simp
  have "js_split CHR '':'' (''WebDavDemo'' @ CHR '':'' # (''WebDavPassword'' @ CHR '':'' # extra)) =
          ''WebDavDemo'' # js_split CHR '':'' (''WebDavPassword'' @ CHR '':'' # extra)"
    by (rule js_split_at_sep) simp
  with p have "js_split CHR '':'' (''WebDavDemo:WebDavPassword'' @ CHR '':'' # extra) =
          ''WebDavDemo'' # ''WebDavPassword'' # js_split CHR '':'' extra"
    by simp
  then show ?thesis
    unfolding credentials_match_def by simp
qed

text \<open>
  Claim C8, as amended. The authentication check accepts a header exactly when the
  element at index 1 of the header split at every single space decodes to a string whose
  first colon-separated field is \<open>WebDavDemo\<close> and whose second is
  \<open>WebDavPassword\<close>. The scheme token plays no part, and neither does anything after
  the second colon.
\<close>

theorem credential_check_reads_two_fields:
  "(authenticate (Some h) = Accepted \<longleftrightarrow>
      (\<exists>tok. field_at CHR '' '' 1 h = Some tok \<and>
         field_at CHR '':'' 0 (decode_credentials tok) = Some ''WebDavDemo'' \<and>
         field_at CHR '':'' 1 (decode_credentials tok) = Some ''WebDavPassword'')) \<and>
   (\<forall>scheme scheme' rest. CHR '' '' \<notin> set scheme \<and> CHR '' '' \<notin> set scheme' \<longrightarrow>
      authenticate (Some (scheme @ CHR '' '' # rest)) =
      authenticate (Some (scheme' @ CHR '' '' # rest))) \<and>
   (\<forall>scheme tok extra. CHR '' '' \<notin> set scheme \<and> CHR '' '' \<notin> set tok \<and>
      decode_credentials tok = ''WebDavDemo:WebDavPassword'' @ CHR '':'' # extra \<longrightarrow>
      authenticate (Some (scheme @ CHR '' '' # tok)) = Accepted)"
proof (intro conjI allI impI)
  show "authenticate (Some h) = Accepted \<longleftrightarrow>
      (\<exists>tok. field_at CHR '' '' 1 h = Some tok \<and>
         field_at CHR '':'' 0 (decode_credentials tok) = Some ''WebDavDemo'' \<and>
         field_at CHR '':'' 1 (decode_credentials tok) = Some ''WebDavPassword'')"
    by (simp add: authenticate_Accepted base64Credentials_field credentials_match_fields)
next
  fix scheme scheme' rest
  assume "CHR '' '' \<notin> set scheme \<and> CHR '' '' \<notin> set scheme'"
  then show "authenticate (Some (scheme @ CHR '' '' # rest)) =
      authenticate (Some (scheme' @ CHR '' '' # rest))"
    by (simp add: authenticate_scheme)
next
  fix scheme tok extra
  assume h: "CHR '' '' \<notin> set scheme \<and> CHR '' '' \<notin> set tok \<and>
      decode_credentials tok = ''WebDavDemo:WebDavPassword'' @ CHR '':'' # extra"
  then have "credentials_match (decode_credentials tok)"
    using credentials_match_suffix [of extra] by simp
  with h show "authenticate (Some (scheme @ CHR '' '' # tok)) = Accepted"
    by (simp add: authenticate_scheme js_split_no_sep)
qed

lemma extra_token_decodes:
  "decode_credentials ''V2ViRGF2RGVtbzpXZWJEYXZQYXNzd29yZDpleHRyYQ=='' =
     ''WebDavDemo:WebDavPassword'' @ CHR '':'' # ''extra''"
  by code_simp

theorem credential_check_reads_two_fields_witness:
  "CHR '' '' \<notin> set ''Bearer'' \<and>
   CHR '' '' \<notin> set ''V2ViRGF2RGVtbzpXZWJEYXZQYXNzd29yZDpleHRyYQ=='' \<and>
   decode_credentials ''V2ViRGF2RGVtbzpXZWJEYXZQYXNzd29yZDpleHRyYQ=='' =
     ''WebDavDemo:WebDavPassword:extra'' \<and>
   authenticate (Some ''Bearer V2ViRGF2RGVtbzpXZWJEYXZQYXNzd29yZDpleHRyYQ=='') = Accepted"
proof -
  have a: "CHR '' '' \<notin> set ''Bearer''" by simp
  have b: "CHR '' '' \<notin> set ''V2ViRGF2RGVtbzpXZWJEYXZQYXNzd29yZDpleHRyYQ==''" by simp
  note c = extra_token_decodes
  have "authenticate (Some (''Bearer'' @ CHR '' '' # ''V2ViRGF2RGVtbzpXZWJEYXZQYXNzd29yZDpleHRyYQ=='')) = Accepted"
    using credential_check_reads_two_fields [of "[]"] a b c by blast
  with a b c show ?thesis by simp
qed

text \<open>
  The claim as stated fails: with two spaces after the scheme, the second
  white-space-separated token is the valid credential, but the code reads the empty
  string between the two spaces and rejects.
\<close>

theorem double_space_header_counterexample:
  "spec_ws_tokens ''Basic  V2ViRGF2RGVtbzpXZWJEYXZQYXNzd29yZA=='' =
     [''Basic'', ''V2ViRGF2RGVtbzpXZWJEYXZQYXNzd29yZA==''] \<and>
   credentials_match (decode_credentials ''V2ViRGF2RGVtbzpXZWJEYXZQYXNzd29yZA=='') \<and>
   authenticate (Some ''Basic  V2ViRGF2RGVtbzpXZWJEYXZQYXNzd29yZA=='') = Rejected"
proof -
  have "spec_ws_tokens ''Basic  V2ViRGF2RGVtbzpXZWJEYXZQYXNzd29yZA=='' =
     [''Basic'', ''V2ViRGF2RGVtbzpXZWJEYXZQYXNzd29yZA=='']"
    by code_simp
  moreover have "authenticate (Some ''Basic  V2ViRGF2RGVtbzpXZWJEYXZQYXNzd29yZA=='') = Rejected"
    by code_simp
  ultimately show ?thesis
    by (simp add: valid_basic_decodes pair_matches)
qed

section \<open>Properties of the client\<close>

subsection \<open>What a request and \<open>fetchFiles\<close> leave unchanged\<close>

lemma axiosInstance_sent:
  "sent (snd (axiosInstance rq st)) =
     sent st @ [rq\<lparr>rq_headers :=
                  (case default_authorization st of None \<Rightarrow> [] | Some a \<Rightarrow> [(''Authorization'', a)])
                  @ rq_headers rq\<rparr>]"
  by (simp add: axiosInstance_def Let_def split: list.splits reply.splits)

lemma axiosInstance_frame:
  "default_authorization (snd (axiosInstance rq st)) = default_authorization st"
  "stored_credentials (snd (axiosInstance rq st)) = stored_credentials st"
  "isAuthenticated (snd (axiosInstance rq st)) = isAuthenticated st"
  "authCredentials (snd (axiosInstance rq st)) = authCredentials st"
  "files (snd (axiosInstance rq st)) = files st"
  "selectedFile (snd (axiosInstance rq st)) = selectedFile st"
  "folderName (snd (axiosInstance rq st)) = folderName st"
  "status (snd (axiosInstance rq st)) = status st"
  by (simp_all add: axiosInstance_def Let_def split: list.splits reply.splits)

lemma axiosInstance_result:
  "fst (axiosInstance rq st) =
     (case replies st of
        [] \<Rightarrow> Inl ErrRequest
      | NoResponse # _ \<Rightarrow> Inl ErrRequest
      | Response code stx data # _ \<Rightarrow>
          if 200 \<le> code \<and> code < 300 then Inr (code, stx, data) else Inl (ErrResponse code stx))"
  by (auto simp: axiosInstance_def Let_def split: list.splits reply.splits)

lemma fetchFiles_frame:
  "default_authorization (fetchFiles pf st) = default_authorization st"
  "stored_credentials (fetchFiles pf st) = stored_credentials st"
  "isAuthenticated (fetchFiles pf st) = isAuthenticated st"
  "authCredentials (fetchFiles pf st) = authCredentials st"
  "selectedFile (fetchFiles pf st) = selectedFile st"
  "folderName (fetchFiles pf st) = folderName st"
  using axiosInstance_frame [of "propfind_root [(''Depth'', ''1'')]" st]
  by (auto simp: fetchFiles_def Let_def split: prod.splits sum.splits payload.splits)

lemma fetchFiles_sent:
  "sent (fetchFiles pf st) =
     sent st @ [(propfind_root [(''Depth'', ''1'')])\<lparr>rq_headers :=
                  (case default_authorization st of None \<Rightarrow> [] | Some a \<Rightarrow> [(''Authorization'', a)])
                  @ [(''Depth'', ''1'')]\<rparr>]"
  using axiosInstance_sent [of "propfind_root [(''Depth'', ''1'')]" st]
  by (auto simp: fetchFiles_def Let_def propfind_root_def split: prod.splits sum.splits payload.splits)

subsection \<open>The guards of \<open>uploadFile\<close> and \<open>createFolder\<close>\<close>

text \<open>
  Claim C10. With no file selected, \<open>uploadFile\<close> returns the state with the status
  message changed and nothing else: no request is issued (the list of requests sent is
  part of the state), and the file list, the selected file and the authentication state
  are as before. The same holds for \<open>createFolder\<close> with an empty folder name.
\<close>

theorem guards_change_only_status:
  "(selectedFile st = None \<longrightarrow>
      uploadFile pf st = st\<lparr>status := ''Please select a file first''\<rparr> \<and>
      sent (uploadFile pf st) = sent st \<and> files (uploadFile pf st) = files st \<and>
      selectedFile (uploadFile pf st) = selectedFile st \<and>
      isAuthenticated (uploadFile pf st) = isAuthenticated st) \<and>
   (folderName st = [] \<longrightarrow>
      createFolder pf st = st\<lparr>status := ''Please enter a folder name''\<rparr> \<and>
      sent (createFolder pf st) = sent st \<and> files (createFolder pf st) = files st \<and>
      selectedFile (createFolder pf st) = selectedFile st \<and>
      isAuthenticated (createFolder pf st) = isAuthenticated st)"
  by (simp add: uploadFile_def createFolder_def)

theorem guards_change_only_status_witness:
  "selectedFile (initial_app []) = None \<and> folderName (initial_app []) = [] \<and>
   uploadFile plain_browser (initial_app []) =
     (initial_app [])\<lparr>status := ''Please select a file first''\<rparr> \<and>
   createFolder plain_browser (initial_app []) =
     (initial_app [])\<lparr>status := ''Please enter a folder name''\<rparr> \<and>
   sent (uploadFile plain_browser (initial_app [])) = [] \<and>
   sent (createFolder plain_browser (initial_app [])) = []"
proof -
  have a: "selectedFile (initial_app []) = None" and b: "folderName (initial_app []) = []"
    and c: "sent (initial_app []) = []"
    by (simp_all add: initial_app_def)
  show ?thesis
    using a b c guards_change_only_status [of "initial_app []" plain_browser]
    by simp
qed

subsection \<open>Login\<close>

lemma unbase64_base64_char: "n < 64 \<Longrightarrow> unbase64 (base64_char n) = Some n"
  by (auto simp: unbase64_def base64_char_def Let_def)

lemma base64_char_not_pad: "n < 64 \<Longrightarrow> base64_char n \<noteq> CHR ''=''"
  using unbase64_base64_char [of n] by (auto simp: unbase64_def)

lemma sextets_Cons:
  "n < 64 \<Longrightarrow>
   List.map_filter unbase64 (takeWhile (\<lambda>c. c \<noteq> CHR ''='') (base64_char n # cs)) =
     n # List.map_filter unbase64 (takeWhile (\<lambda>c. c \<noteq> CHR ''='') cs)"
  by (simp add: base64_char_not_pad unbase64_base64_char List.map_filter_simps)

lemma sextets_pad:
  "List.map_filter unbase64 (takeWhile (\<lambda>c. c \<noteq> CHR ''='') (CHR ''='' # cs)) = []"
  by (simp add: List.map_filter_simps)

lemma two_digits:
  fixes x y k :: nat
  assumes "y < k"
  shows "(x * k + y) div k = x" "(x * k + y) mod k = y"
  using assms by simp_all

lemma low_bound:
  fixes x y :: nat
  shows "x < 4 \<Longrightarrow> y < 16 \<Longrightarrow> x * 16 + y < 64" "x < 16 \<Longrightarrow> y < 4 \<Longrightarrow> x * 4 + y < 64"
  by linarith+

lemma byte_div:
  fixes a :: nat
  assumes "a \<le> 255"
  shows "a div 4 < 64" "a div 16 < 16" "a div 64 < 4"
  using assms by (simp_all add: div_less_iff_less_mult)

lemma sextet_values:
  fixes a b c :: nat
  assumes "b \<le> 255" "c \<le> 255"
  shows "((a mod 4) * 16 + b div 16) div 16 = a mod 4"
    "((a mod 4) * 16 + b div 16) mod 16 = b div 16"
    "((b mod 16) * 4 + c div 64) div 4 = b mod 16"
    "((b mod 16) * 4 + c div 64) mod 4 = c div 64"
    "((a mod 4) * 16) div 16 = a mod 4"
    "((b mod 16) * 4) div 4 = b mod 16"
  using byte_div [OF assms(1)] byte_div [OF assms(2)]
  by (simp_all only: two_digits)

lemma sextet_bounds:
  fixes a b c :: nat
  assumes "a \<le> 255" "b \<le> 255" "c \<le> 255"
  shows "a div 4 < 64" "(a mod 4) * 16 + b div 16 < 64" "(b mod 16) * 4 + c div 64 < 64"
    "c mod 64 < 64" "(a mod 4) * 16 < 64" "(b mod 16) * 4 < 64"
proof -
  have m: "a mod 4 < 4" "b mod 16 < 16" by simp_all
  show "a div 4 < 64" by (rule byte_div [OF assms(1)])
  show "(a mod 4) * 16 + b div 16 < 64"
    by (rule low_bound(1) [OF m(1) byte_div(2) [OF assms(2)]])
  show "(b mod 16) * 4 + c div 64 < 64"
    by (rule low_bound(2) [OF m(2) byte_div(3) [OF assms(3)]])
  show "c mod 64 < 64" by simp
  show "(a mod 4) * 16 < 64" using low_bound(1) [OF m(1), of 0] by simp
  show "(b mod 16) * 4 < 64" using low_bound(2) [OF m(2), of 0] by simp
qed

lemma decode_groups:
  fixes a b c :: nat
  assumes "a \<le> 255" "b \<le> 255" "c \<le> 255"
  shows "base64_groups (a div 4 # ((a mod 4) * 16 + b div 16) # ((b mod 16) * 4 + c div 64)
           # c mod 64 # rest) = a # b # c # base64_groups rest"
    and "base64_groups [a div 4, (a mod 4) * 16 + b div 16, (b mod 16) * 4] = [a, b]"
    and "base64_groups [a div 4, (a mod 4) * 16] = [a]"
proof -
  have e: "a div 4 * 4 + a mod 4 = a" "b div 16 * 16 + b mod 16 = b" "c div 64 * 64 + c mod 64 = c"
    by simp_all
  show "base64_groups (a div 4 # ((a mod 4) * 16 + b div 16) # ((b mod 16) * 4 + c div 64)
           # c mod 64 # rest) = a # b # c # base64_groups rest"
    by (simp only: base64_groups.simps sextet_values [OF assms(2,3)] e)
  show "base64_groups [a div 4, (a mod 4) * 16 + b div 16, (b mod 16) * 4] = [a, b]"
    by (simp only: base64_groups.simps sextet_values [OF assms(2,3)] e)
  show "base64_groups [a div 4, (a mod 4) * 16] = [a]"
    by (simp only: base64_groups.simps sextet_values [OF assms(2,3)] e)
qed

lemma btoa_bytes_roundtrip:
  "list_all (\<lambda>c. c \<le> 255) bs \<Longrightarrow> buffer_from_base64 (btoa_bytes bs) = bs"
proof (induction bs rule: btoa_bytes.induct)
  case (1 a b c rest)
  then have ab: "a \<le> 255" "b \<le> 255" "c \<le> 255" and r: "list_all (\<lambda>c. c \<le> 255) rest"
    by simp_all
  from 1 r have ih: "buffer_from_base64 (btoa_bytes rest) = rest" by simp
  note sb = sextet_bounds [OF ab]
  show ?case
    using ih unfolding buffer_from_base64_def btoa_bytes.simps
    by (simp only: sextets_Cons [OF sb(1)] sextets_Cons [OF sb(2)] sextets_Cons [OF sb(3)]
        sextets_Cons [OF sb(4)] decode_groups [OF ab])
next
  case (2 a b)
  then have ab: "a \<le> 255" "b \<le> 255" "(0::nat) \<le> 255" by simp_all
  note sb = sextet_bounds [OF ab]
  show ?case
    unfolding buffer_from_base64_def btoa_bytes.simps
    by (simp only: sextets_Cons [OF sb(1)] sextets_Cons [OF sb(2)] sextets_Cons [OF sb(6)]
        sextets_pad decode_groups [OF ab])
next
  case (3 a)
  then have ab: "a \<le> 255" "(0::nat) \<le> 255" "(0::nat) \<le> 255" by simp_all
  note sb = sextet_bounds [OF ab]
  show ?case
    unfolding buffer_from_base64_def btoa_bytes.simps
    by (simp only: sextets_Cons [OF sb(1)] sextets_Cons [OF sb(5)] sextets_pad decode_groups [OF ab])
next
  case 4
  show ?case by (simp add: buffer_from_base64_def List.map_filter_simps)
qed

lemma btoa_Some_iff: "btoa s = Some enc \<longleftrightarrow> list_all (\<lambda>c. c \<le> 255) s \<and> enc = btoa_bytes s"
  by (auto simp: btoa_def)

lemma btoa_None_iff: "btoa s = None \<longleftrightarrow> (\<exists>c \<in> set s. 255 < c)"
  by (auto simp: btoa_def list_all_iff not_le)

lemma handleLogin_success:
  assumes "btoa (username @ [58] @ password) = Some enc"
    and "replies st = Response code stx data # rest" and "code = 200 \<or> code = 207"
    and "setItem_error pf = None"
  shows "handleLogin pf username password st =
     (Inr (),
      fetchFiles pf
        ((snd (axiosInstance login_probe (st\<lparr>default_authorization := Some (''Basic '' @ enc)\<rparr>)))
           \<lparr>authCredentials := Some (username, password), isAuthenticated := True,
            stored_credentials := Some enc\<rparr>))"
  using assms
  by (auto simp: handleLogin_def Let_def axiosInstance_def split: prod.splits sum.splits)

lemma handleLogin_storage_full:
  assumes "btoa (username @ [58] @ password) = Some enc"
    and "replies st = Response code stx data # rest" and "code = 200 \<or> code = 207"
    and "setItem_error pf = Some m"
  shows "handleLogin pf username password st =
     login_failed (ErrOther m)
        ((snd (axiosInstance login_probe (st\<lparr>default_authorization := Some (''Basic '' @ enc)\<rparr>)))
           \<lparr>authCredentials := Some (username, password), isAuthenticated := True\<rparr>)"
  using assms
  by (auto simp: handleLogin_def Let_def axiosInstance_def split: prod.splits sum.splits)

lemma handleLogin_failure:
  assumes "btoa (username @ [58] @ password) = Some enc"
    and "\<not> (\<exists>stx data rest. replies st = Response 200 stx data # rest \<or>
                  replies st = Response 207 stx data # rest)"
  shows "\<exists>err. handleLogin pf username password st =
     login_failed err
       (snd (axiosInstance login_probe (st\<lparr>default_authorization := Some (''Basic '' @ enc)\<rparr>)))"
proof (cases "replies st")
  case Nil
  with assms(1) show ?thesis
    by (auto simp: handleLogin_def Let_def axiosInstance_def)
next
  case (Cons r rest)
  show ?thesis
  proof (cases r)
    case NoResponse
    with Cons assms(1) show ?thesis
      by (auto simp: handleLogin_def Let_def axiosInstance_def)
  next
    case (Response code stx data)
    with Cons assms(2) have "code \<noteq> 200" "code \<noteq> 207" by auto
    with Cons Response assms(1) show ?thesis
      by (auto simp: handleLogin_def Let_def axiosInstance_def)
  qed
qed

lemma handleLogin_invalid_character:
  assumes "btoa (username @ [58] @ password) = None"
  shows "handleLogin pf username password st =
           login_failed (ErrOther (invalid_character_message pf)) st"
  using assms by (simp add: handleLogin_def)

lemma login_failed_clears:
  "fst (login_failed err st) \<noteq> Inr ()"
  "default_authorization (snd (login_failed err st)) = None"
  "stored_credentials (snd (login_failed err st)) = None"
  "sent (snd (login_failed err st)) = sent st"
  by (simp_all add: login_failed_def)

lemma login_with_encoding:
  assumes enc: "btoa (username @ [58] @ password) = Some enc"
  shows "take (Suc (length (sent st))) (sent (snd (handleLogin pf username password st))) =
     sent st @ [login_probe\<lparr>rq_headers :=
        (''Authorization'', ''Basic '' @ enc) # rq_headers login_probe\<rparr>] \<and>
   (fst (handleLogin pf username password st) = Inr () \<longleftrightarrow>
      (\<exists>stx data rest. replies st = Response 200 stx data # rest \<or>
                        replies st = Response 207 stx data # rest) \<and>
      setItem_error pf = None) \<and>
   (fst (handleLogin pf username password st) = Inr () \<longrightarrow>
      stored_credentials (snd (handleLogin pf username password st)) = Some enc \<and>
      default_authorization (snd (handleLogin pf username password st)) =
        Some (''Basic '' @ enc) \<and>
      (\<forall>rq. (''Authorization'', ''Basic '' @ enc) \<in>
          set (rq_headers (last (sent (snd (axiosInstance rq
                 (snd (handleLogin pf username password st))))))))) \<and>
   (fst (handleLogin pf username password st) \<noteq> Inr () \<longrightarrow>
      stored_credentials (snd (handleLogin pf username password st)) = None \<and>
      default_authorization (snd (handleLogin pf username password st)) = None)"
proof (cases "\<exists>stx data rest. replies st = Response 200 stx data # rest \<or>
                  replies st = Response 207 stx data # rest")
  case True
  then obtain code stx data rest where
    r: "replies st = Response code stx data # rest" and c: "code = 200 \<or> code = 207"
    by auto
  show ?thesis
  proof (cases "setItem_error pf")
    case None
    show ?thesis
      using True None
      by (simp add: handleLogin_success [OF enc r c None] fetchFiles_frame fetchFiles_sent
          axiosInstance_frame axiosInstance_sent login_probe_def propfind_root_def)
  next
    case (Some m)
    show ?thesis
      using True Some
      by (simp add: handleLogin_storage_full [OF enc r c Some] login_failed_clears
          axiosInstance_sent login_probe_def propfind_root_def)
  qed
next
  case False
  from handleLogin_failure [OF enc False, of pf]
  obtain err where "handleLogin pf username password st =
     login_failed err
       (snd (axiosInstance login_probe (st\<lparr>default_authorization := Some (''Basic '' @ enc)\<rparr>)))"
    by blast
  then show ?thesis
    using False
    by (simp add: login_failed_clears axiosInstance_sent login_probe_def propfind_root_def)
qed

text \<open>
  Claim C7, as amended. When every character of the user name and the password is at
  most U+00FF, \<open>handleLogin\<close> first issues a \<open>PROPFIND\<close> for \<open>/\<close> with \<open>Depth: 1\<close>,
  carrying the Basic credential, which is the base64 encoding of
  \<open>username:password\<close> (the gateway's decoder gives these bytes back). It succeeds
  exactly when the reply to that request has status 200 or 207 and the browser accepts
  the write to its storage. On success the credential is stored, and it is the default
  Authorization header, which every later request of the axios instance carries. With
  any other character, \<open>btoa\<close> throws: no request is issued and the login fails. On
  every failure neither the stored credential nor the default header is set.
\<close>

theorem login_contract:
  "rq_method login_probe = ''PROPFIND'' \<and> rq_url login_probe = ''/'' \<and>
   (''Depth'', ''1'') \<in> set (rq_headers login_probe) \<and>
   ((\<forall>c \<in> set (username @ password). c \<le> 255) \<longrightarrow>
      (\<exists>enc. btoa (username @ [58] @ password) = Some enc \<and>
         buffer_from_base64 enc = username @ [58] @ password \<and>
         take (Suc (length (sent st))) (sent (snd (handleLogin pf username password st))) =
           sent st @ [login_probe\<lparr>rq_headers :=
              (''Authorization'', ''Basic '' @ enc) # rq_headers login_probe\<rparr>] \<and>
         (fst (handleLogin pf username password st) = Inr () \<longleftrightarrow>
            (\<exists>stx data rest. replies st = Response 200 stx data # rest \<or>
                              replies st = Response 207 stx data # rest) \<and>
            setItem_error pf = None) \<and>
         (fst (handleLogin pf username password st) = Inr () \<longrightarrow>
            stored_credentials (snd (handleLogin pf username password st)) = Some enc \<and>
            default_authorization (snd (handleLogin pf username password st)) =
              Some (''Basic '' @ enc) \<and>
            (\<forall>rq. (''Authorization'', ''Basic '' @ enc) \<in>
                set (rq_headers (last (sent (snd (axiosInstance rq
                       (snd (handleLogin pf username password st))))))))))) \<and>
   ((\<exists>c \<in> set (username @ password). 255 < c) \<longrightarrow>
      fst (handleLogin pf username password st) \<noteq> Inr () \<and>
      sent (snd (handleLogin pf username password st)) = sent st) \<and>
   (fst (handleLogin pf username password st) \<noteq> Inr () \<longrightarrow>
      stored_credentials (snd (handleLogin pf username password st)) = None \<and>
      default_authorization (snd (handleLogin pf username password st)) = None)"
proof (cases "\<forall>c \<in> set (username @ password). c \<le> 255")
  case True
  then have enc: "btoa (username @ [58] @ password) = Some (btoa_bytes (username @ [58] @ password))"
    by (auto simp: btoa_def list_all_iff)
  from True have "list_all (\<lambda>c. c \<le> 255) (username @ [58] @ password)"
    by (auto simp: list_all_iff)
  then have rt: "buffer_from_base64 (btoa_bytes (username @ [58] @ password)) =
                   username @ [58] @ password"
    by (rule btoa_bytes_roundtrip)
  from True have nb: "\<not> (\<exists>c \<in> set (username @ password). 255 < c)"
    by (auto simp: not_less)
  show ?thesis
    using login_with_encoding [OF enc, of st pf] enc rt nb
    by (simp add: login_probe_def propfind_root_def)
next
  case False
  then have "btoa (username @ [58] @ password) = None"
    by (auto simp: btoa_def list_all_iff)
  from handleLogin_invalid_character [OF this, of pf st] False show ?thesis
    by (simp add: login_failed_clears login_probe_def propfind_root_def)
qed

lemma btoa_pair:
  "btoa (code_units ''WebDavDemo'' @ [58] @ code_units ''WebDavPassword'') =
     Some ''V2ViRGF2RGVtbzpXZWJEYXZQYXNzd29yZA==''"
  by code_simp

theorem login_contract_witness:
  "fst (handleLogin plain_browser (code_units ''WebDavDemo'') (code_units ''WebDavPassword'')
          (initial_app [Response 207 ''Multi-Status'' (Multistatus [])])) = Inr () \<and>
   stored_credentials (snd (handleLogin plain_browser (code_units ''WebDavDemo'')
          (code_units ''WebDavPassword'')
          (initial_app [Response 207 ''Multi-Status'' (Multistatus [])]))) =
     Some ''V2ViRGF2RGVtbzpXZWJEYXZQYXNzd29yZA=='' \<and>
   default_authorization (snd (handleLogin plain_browser (code_units ''WebDavDemo'')
          (code_units ''WebDavPassword'')
          (initial_app [Response 207 ''Multi-Status'' (Multistatus [])]))) =
     Some ''Basic V2ViRGF2RGVtbzpXZWJEYXZQYXNzd29yZA=='' \<and>
   authenticate (Some ''Basic V2ViRGF2RGVtbzpXZWJEYXZQYXNzd29yZA=='') = Accepted \<and>
   fst (handleLogin plain_browser (code_units ''WebDavDemo'') (code_units ''wrong'')
          (initial_app [Response 401 ''Unauthorized'' (Unindexable [])])) \<noteq> Inr () \<and>
   stored_credentials (snd (handleLogin plain_browser (code_units ''WebDavDemo'')
          (code_units ''wrong'')
          (initial_app [Response 401 ''Unauthorized'' (Unindexable [])]))) = None \<and>
   default_authorization (snd (handleLogin plain_browser (code_units ''WebDavDemo'')
          (code_units ''wrong'')
          (initial_app [Response 401 ''Unauthorized'' (Unindexable [])]))) = None"
proof -
  let ?u = "code_units ''WebDavDemo''"
  let ?ok = "handleLogin plain_browser ?u (code_units ''WebDavPassword'')
          (initial_app [Response 207 ''Multi-Status'' (Multistatus [])])"
  let ?ko = "handleLogin plain_browser ?u (code_units ''wrong'')
          (initial_app [Response 401 ''Unauthorized'' (Unindexable [])])"
  have l: "\<forall>c \<in> set (?u @ code_units ''WebDavPassword''). c \<le> 255"
    "\<forall>c \<in> set (?u @ code_units ''wrong''). c \<le> 255"
    by (simp_all add: code_units_def)
  have w: "setItem_error plain_browser = None"
    by (simp add: plain_browser_def)
  have a: "\<exists>stx data rest.
             replies (initial_app [Response 207 ''Multi-Status'' (Multistatus [])]) =
               Response 200 stx data # rest \<or>
             replies (initial_app [Response 207 ''Multi-Status'' (Multistatus [])]) =
               Response 207 stx data # rest"
    by (simp add: initial_app_def)
  have b: "\<not> (\<exists>stx data rest.
             replies (initial_app [Response 401 ''Unauthorized'' (Unindexable [])]) =
               Response 200 stx data # rest \<or>
             replies (initial_app [Response 401 ''Unauthorized'' (Unindexable [])]) =
               Response 207 stx data # rest)"
    by (simp add: initial_app_def)
  note ok = login_contract [of "code_units ''WebDavDemo''" "code_units ''WebDavPassword''"
      "initial_app [Response 207 ''Multi-Status'' (Multistatus [])]" plain_browser]
  note ko = login_contract [of "code_units ''WebDavDemo''" "code_units ''wrong''"
      "initial_app [Response 401 ''Unauthorized'' (Unindexable [])]" plain_browser]
  from ok l(1) obtain enc where
    e: "btoa (?u @ [58] @ code_units ''WebDavPassword'') = Some enc"
    and i: "fst ?ok = Inr () \<longleftrightarrow>
            (\<exists>stx data rest.
               replies (initial_app [Response 207 ''Multi-Status'' (Multistatus [])]) =
                 Response 200 stx data # rest \<or>
               replies (initial_app [Response 207 ''Multi-Status'' (Multistatus [])]) =
                 Response 207 stx data # rest) \<and>
            setItem_error plain_browser = None"
    and j: "fst ?ok = Inr () \<longrightarrow>
            stored_credentials (snd ?ok) = Some enc \<and>
            default_authorization (snd ?ok) = Some (''Basic '' @ enc)"
    by blast
  from e btoa_pair have enc: "enc = ''V2ViRGF2RGVtbzpXZWJEYXZQYXNzd29yZA==''"
    by (simp only: option.inject)
  from i a w have s: "fst ?ok = Inr ()" by simp
  with j enc have s2: "stored_credentials (snd ?ok) = Some ''V2ViRGF2RGVtbzpXZWJEYXZQYXNzd29yZA==''"
    and s3: "default_authorization (snd ?ok) = Some ''Basic V2ViRGF2RGVtbzpXZWJEYXZQYXNzd29yZA==''"
    by simp_all
  from ko l(2) b have f: "fst ?ko \<noteq> Inr ()"
    by blast
  with ko have f2: "stored_credentials (snd ?ko) = None"
    and f3: "default_authorization (snd ?ko) = None"
    by blast+
  have g: "authenticate (Some ''Basic V2ViRGF2RGVtbzpXZWJEYXZQYXNzd29yZA=='') = Accepted"
    using valid_basic_accepted by (simp add: valid_basic_def)
  from s s2 s3 g f f2 f3 show ?thesis by (intro conjI)
qed

text \<open>
  The claim as stated fails. With a user name that is the euro sign (code unit 8364), no
  \<open>PROPFIND\<close> is issued and the login fails, although the server would answer 207.
  With the storage full, the reply 207 does not make the login succeed, and nothing is
  stored.
\<close>

theorem wide_character_login_counterexample:
  "replies (initial_app [Response 207 ''Multi-Status'' (Multistatus [])]) =
     [Response 207 ''Multi-Status'' (Multistatus [])] \<and>
   fst (handleLogin plain_browser [8364] (code_units ''pw'')
          (initial_app [Response 207 ''Multi-Status'' (Multistatus [])])) \<noteq> Inr () \<and>
   sent (snd (handleLogin plain_browser [8364] (code_units ''pw'')
          (initial_app [Response 207 ''Multi-Status'' (Multistatus [])]))) = [] \<and>
   fst (handleLogin full_browser (code_units ''WebDavDemo'') (code_units ''WebDavPassword'')
          (initial_app [Response 207 ''Multi-Status'' (Multistatus [])])) \<noteq> Inr () \<and>
   stored_credentials (snd (handleLogin full_browser (code_units ''WebDavDemo'')
          (code_units ''WebDavPassword'')
          (initial_app [Response 207 ''Multi-Status'' (Multistatus [])]))) = None"
proof -
  have r: "replies (initial_app [Response 207 ''Multi-Status'' (Multistatus [])]) =
     Response 207 ''Multi-Status'' (Multistatus []) # []"
    by (simp add: initial_app_def)
  have m: "setItem_error full_browser = Some ''The quota has been exceeded.''"
    by (simp add: full_browser_def)
  have "handleLogin plain_browser [8364] (code_units ''pw'')
          (initial_app [Response 207 ''Multi-Status'' (Multistatus [])]) =
        login_failed (ErrOther (invalid_character_message plain_browser))
          (initial_app [Response 207 ''Multi-Status'' (Multistatus [])])"
    by (rule handleLogin_invalid_character) (simp add: btoa_def)
  then show ?thesis
    using r
    by (simp add: login_failed_clears handleLogin_storage_full [OF btoa_pair r _ m])
       (simp add: initial_app_def)
qed

subsection \<open>The order of the listing\<close>

lemma set_insert_by: "set (insert_by cmp x ys) = insert x (set ys)"
  by (induction ys) auto

lemma mset_insert_by: "mset (insert_by cmp x ys) = add_mset x (mset ys)"
  by (induction ys) auto

lemma mset_sort_by: "mset (sort_by cmp xs) = mset xs"
  by (induction xs) (auto simp: mset_insert_by)

lemma insert_by_directories_first:
  assumes "sorted_wrt (\<lambda>a b. isDirectory b \<longrightarrow> isDirectory a) ys"
  shows "sorted_wrt (\<lambda>a b. isDirectory b \<longrightarrow> isDirectory a) (insert_by (compareEntries pf) x ys)"
  using assms
proof (induction ys)
  case Nil
  then show ?case by simp
next
  case (Cons y ys)
  show ?case
  proof (cases "compareEntries pf x y \<le> 0")
    case True
    then have "isDirectory y \<longrightarrow> isDirectory x"
      by (auto simp: compareEntries_def split: if_splits)
    with Cons.prems True show ?thesis by auto
  next
    case False
    then have "isDirectory x \<longrightarrow> isDirectory y"
      by (auto simp: compareEntries_def split: if_splits)
    with Cons False show ?thesis
      by (auto simp: set_insert_by)
  qed
qed

lemma sort_by_directories_first:
  "sorted_wrt (\<lambda>a b. isDirectory b \<longrightarrow> isDirectory a) (sort_by (compareEntries pf) es)"
  by (induction es) (simp_all add: insert_by_directories_first)

lemma insert_by_sorted:
  assumes tot: "\<And>a b. cmp a b \<le> 0 \<or> cmp b a \<le> 0"
    and trans: "\<And>a b c. cmp a b \<le> 0 \<Longrightarrow> cmp b c \<le> 0 \<Longrightarrow> cmp a c \<le> 0"
    and "sorted_wrt (\<lambda>a b. cmp a b \<le> 0) ys"
  shows "sorted_wrt (\<lambda>a b. cmp a b \<le> 0) (insert_by cmp x ys)"
  using assms(3)
proof (induction ys)
  case Nil
  then show ?case by simp
next
  case (Cons y ys)
  show ?case
  proof (cases "cmp x y \<le> 0")
    case True
    with Cons.prems show ?thesis
      using trans [of x y] by auto
  next
    case False
    then have "cmp y x \<le> 0" using tot [of x y] by simp
    with Cons False show ?thesis
      by (auto simp: set_insert_by)
  qed
qed

lemma sort_by_sorted:
  assumes "\<And>a b. cmp a b \<le> 0 \<or> cmp b a \<le> 0"
    and "\<And>a b c. cmp a b \<le> 0 \<Longrightarrow> cmp b c \<le> 0 \<Longrightarrow> cmp a c \<le> 0"
  shows "sorted_wrt (\<lambda>a b. cmp a b \<le> 0) (sort_by cmp xs)"
  by (induction xs) (simp_all add: insert_by_sorted [OF assms])

lemma compareEntries_total:
  assumes "\<forall>a b. localeCompare pf a b \<le> 0 \<or> localeCompare pf b a \<le> 0"
  shows "compareEntries pf x y \<le> 0 \<or> compareEntries pf y x \<le> 0"
  using assms by (auto simp: compareEntries_def)

lemma compareEntries_le:
  "compareEntries pf a b \<le> 0 \<longleftrightarrow>
     (if isDirectory a = isDirectory b then localeCompare pf (name a) (name b) \<le> 0
      else isDirectory a)"
  by (simp add: compareEntries_def)

lemma compareEntries_trans:
  assumes "\<forall>a b c. localeCompare pf a b \<le> 0 \<and> localeCompare pf b c \<le> 0 \<longrightarrow> localeCompare pf a c \<le> 0"
    and "compareEntries pf x y \<le> 0" and "compareEntries pf y z \<le> 0"
  shows "compareEntries pf x z \<le> 0"
proof -
  have t: "localeCompare pf (name x) (name y) \<le> 0 \<Longrightarrow> localeCompare pf (name y) (name z) \<le> 0
           \<Longrightarrow> localeCompare pf (name x) (name z) \<le> 0"
    using assms(1) by blast
  show ?thesis
    using assms(2,3) t unfolding compareEntries_le
    by (cases "isDirectory x"; cases "isDirectory y"; cases "isDirectory z") simp_all
qed

lemma collate_le: "collate a b \<le> 0 \<longleftrightarrow> collation_key a \<le> collation_key b"
  unfolding collate_def by (simp add: le_less)

lemma plain_browser_consistent:
  "(\<forall>a b. localeCompare plain_browser a b \<le> 0 \<or> localeCompare plain_browser b a \<le> 0) \<and>
   (\<forall>a b c. localeCompare plain_browser a b \<le> 0 \<and> localeCompare plain_browser b c \<le> 0 \<longrightarrow>
      localeCompare plain_browser a c \<le> 0)"
proof -
  have e: "localeCompare plain_browser a b \<le> 0 \<longleftrightarrow> collation_key a \<le> collation_key b" for a b
    by (simp add: plain_browser_def collate_le)
  show ?thesis
    unfolding e
  proof (intro conjI allI impI)
    fix a b :: string
    show "collation_key a \<le> collation_key b \<or> collation_key b \<le> collation_key a"
      by (rule linear)
  next
    fix a b c :: string
    assume "collation_key a \<le> collation_key b \<and> collation_key b \<le> collation_key c"
    then show "collation_key a \<le> collation_key c"
      by (elim conjE) (rule order_trans)
  qed
qed

lemmas collate_eval = collate_def collation_key_def primary_weights_def tertiary_weights_def
  less_prod_def

lemma cmp_table:
  "compareEntries plain_browser (plain_file ''A'') (plain_folder ''art'') = 1"
  "compareEntries plain_browser (plain_file ''b'') (plain_folder ''art'') = 1"
  "compareEntries plain_browser (plain_file ''b'') (plain_file ''A'') = 1"
  by (simp_all add: compareEntries_def plain_browser_def plain_file_def plain_folder_def collate_eval)

lemma sort_example:
  "sort_by (compareEntries plain_browser)
       [plain_file ''b'', plain_file ''A'', plain_folder ''art''] =
     [plain_folder ''art'', plain_file ''A'', plain_file ''b'']"
  by (simp add: cmp_table)

text \<open>
  Claim C6, as amended. The sorted listing is a rearrangement of the parsed entries in
  which every directory comes before every file, and in which entries of the same kind
  are in the order of \<open>a.name.localeCompare(b.name)\<close>, whenever that comparison is a
  consistent one (total and transitive), as the browser's is.
\<close>

theorem sort_directories_first:
  "mset (sort_by (compareEntries pf) es) = mset es \<and>
   sorted_wrt (\<lambda>a b. isDirectory b \<longrightarrow> isDirectory a) (sort_by (compareEntries pf) es) \<and>
   ((\<forall>a b. localeCompare pf a b \<le> 0 \<or> localeCompare pf b a \<le> 0) \<and>
    (\<forall>a b c. localeCompare pf a b \<le> 0 \<and> localeCompare pf b c \<le> 0 \<longrightarrow>
       localeCompare pf a c \<le> 0) \<longrightarrow>
    sorted_wrt (\<lambda>a b. isDirectory a = isDirectory b \<longrightarrow> localeCompare pf (name a) (name b) \<le> 0)
      (sort_by (compareEntries pf) es))"
proof (intro conjI impI)
  show "mset (sort_by (compareEntries pf) es) = mset es"
    by (rule mset_sort_by)
  show "sorted_wrt (\<lambda>a b. isDirectory b \<longrightarrow> isDirectory a) (sort_by (compareEntries pf) es)"
    by (rule sort_by_directories_first)
next
  assume c: "(\<forall>a b. localeCompare pf a b \<le> 0 \<or> localeCompare pf b a \<le> 0) \<and>
    (\<forall>a b c. localeCompare pf a b \<le> 0 \<and> localeCompare pf b c \<le> 0 \<longrightarrow>
       localeCompare pf a c \<le> 0)"
  have "sorted_wrt (\<lambda>a b. compareEntries pf a b \<le> 0) (sort_by (compareEntries pf) es)"
  proof (rule sort_by_sorted)
    show "compareEntries pf a b \<le> 0 \<or> compareEntries pf b a \<le> 0" for a b
      using c compareEntries_total by blast
    show "compareEntries pf a b \<le> 0 \<Longrightarrow> compareEntries pf b c \<le> 0 \<Longrightarrow>
          compareEntries pf a c \<le> 0" for a b c
      using c compareEntries_trans by blast
  qed
  then show "sorted_wrt (\<lambda>a b. isDirectory a = isDirectory b \<longrightarrow>
               localeCompare pf (name a) (name b) \<le> 0) (sort_by (compareEntries pf) es)"
    by (rule sorted_wrt_mono_rel [rotated]) (auto simp: compareEntries_def)
qed

theorem sort_directories_first_witness:
  "sorted_wrt (\<lambda>a b. isDirectory a = isDirectory b \<longrightarrow>
                 localeCompare plain_browser (name a) (name b) \<le> 0)
     (sort_by (compareEntries plain_browser)
        [plain_file ''b'', plain_file ''A'', plain_folder ''art'']) \<and>
   sort_by (compareEntries plain_browser)
        [plain_file ''b'', plain_file ''A'', plain_folder ''art''] =
     [plain_folder ''art'', plain_file ''A'', plain_file ''b'']"
proof -
  note c = plain_browser_consistent
  have s: "sorted_wrt (\<lambda>a b. isDirectory a = isDirectory b \<longrightarrow>
                 localeCompare plain_browser (name a) (name b) \<le> 0)
     (sort_by (compareEntries plain_browser)
        [plain_file ''b'', plain_file ''A'', plain_folder ''art''])"
    using sort_directories_first [of plain_browser
      "[plain_file ''b'', plain_file ''A'', plain_folder ''art'']", THEN conjunct2, THEN conjunct2]
      c by (rule mp)
  show ?thesis
    using s sort_example by (intro conjI)
qed

text \<open>
  The claim as stated fails: \<open>localeCompare\<close> does not take \<open>readme\<close> and
  \<open>README\<close> for equal. Where a comparison that ignores case keeps the two in the
  order of the response, the client puts \<open>readme\<close> first.
\<close>

theorem case_only_names_counterexample:
  "spec_compare_names ''readme'' ''README'' = 0 \<and>
   compareEntries plain_browser (plain_file ''readme'') (plain_file ''README'') = - 1 \<and>
   map name (sort_by spec_compareEntries [plain_file ''README'', plain_file ''readme'']) =
     [''README'', ''readme''] \<and>
   map name (sort_by (compareEntries plain_browser) [plain_file ''README'', plain_file ''readme'']) =
     [''readme'', ''README'']"
  by (simp add: compareEntries_def spec_compareEntries_def spec_compare_names_def
      plain_browser_def plain_file_def collate_eval)

subsection \<open>The entry of the root collection\<close>

lemma make_entry_href: "href (make_entry pf r n) = d_href r"
  by (simp add: make_entry_def)

lemma parse_responses_hrefs:
  assumes "\<forall>r \<in> set rs. d_href r \<noteq> ''http://localhost:8080/'' \<longrightarrow> displayName pf r \<noteq> None"
  shows "\<exists>es. parse_responses pf rs = Inr es \<and>
           map href es = filter (\<lambda>h. h \<noteq> ''http://localhost:8080/'') (map d_href rs)"
  using assms
proof (induction rs)
  case Nil
  then show ?case by simp
next
  case (Cons r rs)
  then obtain es where es: "parse_responses pf rs = Inr es"
    "map href es = filter (\<lambda>h. h \<noteq> ''http://localhost:8080/'') (map d_href rs)"
    by auto
  show ?case
  proof (cases "d_href r = ''http://localhost:8080/''")
    case True
    with es show ?thesis by simp
  next
    case False
    with Cons.prems obtain n where "displayName pf r = Some n" by auto
    with False es show ?thesis by (simp add: make_entry_href)
  qed
qed

lemma sort_by_Nil_iff: "sort_by cmp xs = [] \<longleftrightarrow> xs = []"
  using mset_sort_by [of cmp xs] by (metis mset_zero_iff)

lemma fetchFiles_files:
  assumes "replies st = Response code stx (Multistatus rs) # rest"
    and "200 \<le> code" and "code < 300"
    and "parse_responses pf rs = Inr es" and "es \<noteq> []"
  shows "files (fetchFiles pf st) = sort_by (compareEntries pf) es"
  using assms
  by (simp add: fetchFiles_def axiosInstance_def Let_def sort_by_Nil_iff)

lemma last_segment_notes: "last (js_split CHR ''/'' ''https://files.example.com/notes.txt'') = ''notes.txt''"
  by code_simp

lemma last_segment_percent: "last (js_split CHR ''/'' ''https://files.example.com/100%'') = ''100%''"
  by code_simp

lemma displayName_examples:
  "displayName plain_browser hosted_root = Some ''data''"
  "displayName plain_browser notes_entry = Some ''notes.txt''"
  "displayName plain_browser percent_entry = None"
  by (simp_all add: displayName_def hosted_root_def notes_entry_def percent_entry_def
      plain_browser_def last_segment_notes last_segment_percent)

text \<open>
  Claim C9, as amended. When every entry that is not skipped has a name (its display
  name, or the last segment of its \<open>href\<close> where \<open>decodeURIComponent\<close> accepts it),
  the parser returns a file list, and the entries left out of it are exactly those
  whose \<open>href\<close> is the literal \<open>http://localhost:8080/\<close>. If some entry has another
  \<open>href\<close>, the list displayed after a successful reply is that file list, sorted: a
  root collection under any other \<open>href\<close> is in it.
\<close>

theorem root_skip_is_literal:
  assumes "\<forall>r \<in> set rs. d_href r \<noteq> ''http://localhost:8080/'' \<longrightarrow> displayName pf r \<noteq> None"
  shows "\<exists>es. parse_responses pf rs = Inr es \<and>
           map href es = filter (\<lambda>h. h \<noteq> ''http://localhost:8080/'') (map d_href rs) \<and>
           (\<forall>st code stx rest.
              replies st = Response code stx (Multistatus rs) # rest \<and> 200 \<le> code \<and> code < 300 \<and>
              (\<exists>r \<in> set rs. d_href r \<noteq> ''http://localhost:8080/'') \<longrightarrow>
              mset (files (fetchFiles pf st)) = mset es)"
proof -
  from parse_responses_hrefs [OF assms] obtain es where
    es: "parse_responses pf rs = Inr es"
        "map href es = filter (\<lambda>h. h \<noteq> ''http://localhost:8080/'') (map d_href rs)"
    by blast
  have "mset (files (fetchFiles pf st)) = mset es"
    if "replies st = Response code stx (Multistatus rs) # rest" "200 \<le> code" "code < 300"
       "\<exists>r \<in> set rs. d_href r \<noteq> ''http://localhost:8080/''"
    for st code stx rest
  proof -
    from that(4) have "filter (\<lambda>h. h \<noteq> ''http://localhost:8080/'') (map d_href rs) \<noteq> []"
      by (auto simp: filter_empty_conv)
    with es(2) have "es \<noteq> []" by auto
    from fetchFiles_files [OF that(1-3) es(1) this] show ?thesis
      by (simp add: mset_sort_by)
  qed
  with es show ?thesis by blast
qed

theorem root_skip_is_literal_witness:
  "displayName plain_browser hosted_root \<noteq> None \<and>
   displayName plain_browser notes_entry \<noteq> None \<and>
   (\<exists>es. parse_responses plain_browser [local_root, hosted_root, notes_entry] = Inr es \<and>
      map href es = [''https://files.example.com/'', ''https://files.example.com/notes.txt''])"
proof -
  have h: "\<forall>r \<in> set [local_root, hosted_root, notes_entry].
             d_href r \<noteq> ''http://localhost:8080/'' \<longrightarrow> displayName plain_browser r \<noteq> None"
    by (simp add: displayName_examples local_root_def)
  from root_skip_is_literal [OF h] obtain es where
    "parse_responses plain_browser [local_root, hosted_root, notes_entry] = Inr es"
    "map href es = filter (\<lambda>h. h \<noteq> ''http://localhost:8080/'')
                     (map d_href [local_root, hosted_root, notes_entry])"
    by blast
  moreover have "filter (\<lambda>h. h \<noteq> ''http://localhost:8080/'')
                     (map d_href [local_root, hosted_root, notes_entry]) =
                  [''https://files.example.com/'', ''https://files.example.com/notes.txt'']"
    by (simp add: local_root_def hosted_root_def notes_entry_def)
  ultimately have "\<exists>es. parse_responses plain_browser [local_root, hosted_root, notes_entry] = Inr es \<and>
      map href es = [''https://files.example.com/'', ''https://files.example.com/notes.txt'']"
    by simp
  then show ?thesis
    by (simp add: displayName_examples)
qed

text \<open>
  The claim as stated fails: when an entry without a display name has an \<open>href\<close>
  that \<open>decodeURIComponent\<close> rejects, the loop ends with a URIError and no list is
  displayed, so a root collection with another \<open>href\<close> is not in the displayed list.
\<close>

theorem undecodable_href_counterexample:
  "d_href hosted_root \<noteq> ''http://localhost:8080/'' \<and>
   files (fetchFiles plain_browser
            (initial_app [Response 207 ''Multi-Status'' (Multistatus [hosted_root, percent_entry])])) = [] \<and>
   status (fetchFiles plain_browser
            (initial_app [Response 207 ''Multi-Status'' (Multistatus [hosted_root, percent_entry])])) =
     ''Error: URI malformed''"
proof -
  have h: "d_href hosted_root \<noteq> ''http://localhost:8080/''"
    "d_href percent_entry \<noteq> ''http://localhost:8080/''"
    by (simp_all add: hosted_root_def percent_entry_def)
  then have "parse_responses plain_browser [hosted_root, percent_entry] = Inl ''URI malformed''"
    by (simp add: displayName_examples)
  with h(1) show ?thesis
    by (simp add: fetchFiles_def axiosInstance_def Let_def initial_app_def)
qed

end
